theory Spec2Isabelle
  imports Main "HOL-Library.AList" "HOL-Library.Char_ord" "HOL-Library.List_Lexorder"
begin

section \<open>The image-copy core: data model\<close>

text \<open>
  The development embeds the per-image copy engine (package \<open>source\<close>): the dispatcher
  \<open>Copy\<close>, the two list flows, the three single-image flows, \<open>copyImage\<close>, the spec
  recorder and the session accumulators. Go strings, digests and byte slices are
  \<open>string\<close>; opaque handles of the libraries (typed image references, system contexts,
  signature policies, inspectors) are tokens of type \<open>string\<close>.
\<close>

type_synonym digest = string
type_synonym bytes = string
type_synonym ImageReference = string
type_synonym SystemContext = string
type_synonym SignaturePolicy = string
type_synonym Inspector = string

subsection \<open>Media types\<close>

definition DockerV2ListMediaType :: string where
  "DockerV2ListMediaType = ''application/vnd.docker.distribution.manifest.list.v2+json''"

definition DockerV2Schema2MediaType :: string where
  "DockerV2Schema2MediaType = ''application/vnd.docker.distribution.manifest.v2+json''"

definition DockerV2Schema1MediaType :: string where
  "DockerV2Schema1MediaType = ''application/vnd.docker.distribution.manifest.v1+json''"

definition DockerV2Schema1SignedMediaType :: string where
  "DockerV2Schema1SignedMediaType = ''application/vnd.docker.distribution.manifest.v1+prettyjws''"

definition MediaTypeImageIndex :: string where
  "MediaTypeImageIndex = ''application/vnd.oci.image.index.v1+json''"

definition MediaTypeImageManifest :: string where
  "MediaTypeImageManifest = ''application/vnd.oci.image.manifest.v1+json''"

subsection \<open>Errors\<close>

text \<open>
  A Go \<open>error\<close> value. \<open>Opaque\<close> is an error made by a collaborator or by
  \<open>fmt.Errorf\<close> without \<open>%w\<close>; \<open>Errorf p e\<close> is \<open>fmt.Errorf(p + "%w", e)\<close>;
  \<open>Join\<close> is \<open>errors.Join\<close> of non-nil errors. The two messages formatted with
  \<open>%q\<close> keep their arguments apart.
\<close>

datatype error =
    ErrNoAvailableImage
  | Opaque string
  | Errorf string error
  | Join "error list"
  | UnsupportedMIME string string
  | NotSingleImage string

subsection \<open>Manifests and platforms\<close>

record Platform =
  p_Architecture :: string
  p_OS :: string
  p_OSVersion :: string
  p_OSFeatures :: "string list"
  p_Variant :: string

record Schema2Descriptor =
  s2_MediaType :: string
  s2_Digest :: digest
  s2_URLs :: "string list"

record Schema2ManifestDescriptor = Schema2Descriptor +
  s2_Platform :: Platform

record Schema2 =
  ConfigDescriptor :: Schema2Descriptor
  LayersDescriptors :: "Schema2Descriptor list"

text \<open>The platform of an OCI descriptor is a pointer in the library: it may be nil.\<close>

record Descriptor =
  d_MediaType :: string
  d_Digest :: digest
  d_URLs :: "string list"
  d_Platform :: "Platform option"

record Manifest =
  m_Config :: Descriptor
  m_Layers :: "Descriptor list"

record OCIConfig =
  c_Architecture :: string
  c_OS :: string
  c_OSVersion :: string
  c_OSFeatures :: "string list"
  c_Variant :: string

record ImageInspectInfo =
  ii_Architecture :: string
  ii_Os :: string
  ii_Variant :: string

subsection \<open>Provenance records\<close>

record ImageSpec =
  Arch :: string
  OS :: string
  OSVersion :: string
  OSFeatures :: "string list"
  Variant :: string
  MediaType :: string
  Layers :: "digest list"
  Config :: digest
  Digest :: digest

record Image =
  img_Source :: string
  Tag :: string
  ArchList :: "string list"
  OsList :: "string list"
  Images :: "ImageSpec list"

subsection \<open>The source session\<close>

text \<open>
  The accumulators \<open>copiedArch\<close> and \<open>copiedOS\<close> are Go maps \<open>map[string]bool\<close>,
  kept here as association lists with distinct keys, updated with \<open>AList.update\<close>.
  The declaration of \<open>Source\<close> is not among the sources: the fields are those the
  flows read, \<open>transport\<close> stands for \<open>imageType.Transport()\<close>, \<open>schema2List\<close>
  and \<open>ociIndex\<close> for the \<open>Manifests\<close> of the two lists, and the parsed manifests
  and configs, which the flows read through pointers, are taken as set by whoever opened
  the session.
\<close>

record Source =
  mime :: string
  referenceName :: string
  transport :: string
  registry :: string
  project :: string
  name :: string
  tag :: string
  systemCtx :: SystemContext
  manifestDigest :: digest
  schema2List :: "Schema2ManifestDescriptor list"
  ociIndex :: "Descriptor list"
  schema2 :: Schema2
  ociManifest :: Manifest
  ociConfig :: OCIConfig
  imageInspectInfo :: ImageInspectInfo
  copiedList :: "ImageSpec list"
  copiedArch :: "(string \<times> bool) list"
  copiedOS :: "(string \<times> bool) list"

subsection \<open>The platform filter\<close>

record FilterSet =
  fs_arch :: "string set"
  fs_os :: "string set"
  fs_variant :: "string set"

text \<open>
  Modelled from the spec: \<open>FilterSet.Allow\<close> (package \<open>types\<close>) is not among the
  sources. The spec's contract: it returns true iff every non-empty dimension of the
  filter set contains the value; empty dimensions are wildcards; the variant is compared
  by exact string equality.
\<close>

definition Allow :: "FilterSet \<Rightarrow> string \<Rightarrow> string \<Rightarrow> string \<Rightarrow> bool" where
  "Allow fs arch osInfo variant =
     ((fs_arch fs = {} \<or> arch \<in> fs_arch fs) \<and>
      (fs_os fs = {} \<or> osInfo \<in> fs_os fs) \<and>
      (fs_variant fs = {} \<or> variant \<in> fs_variant fs))"

section \<open>The spec recorder\<close>

fun needInspectConfig :: "string \<Rightarrow> string \<Rightarrow> string \<Rightarrow> string \<Rightarrow> string list \<Rightarrow> bool" where
  "needInspectConfig osInfo arch variant osVersion osFeatures =
     (if osInfo = ''windows'' then osVersion = '''' \<or> length osFeatures = 0
      else if osInfo = ''linux'' then (if arch = ''arm'' then variant = '''' else False)
      else False)"

fun appendLayersSchema2 :: "ImageSpec \<Rightarrow> Schema2Descriptor list \<Rightarrow> ImageSpec" where
  "appendLayersSchema2 spec [] = spec"
| "appendLayersSchema2 spec (layer # rest) =
     (if length (s2_URLs layer) \<noteq> 0 then appendLayersSchema2 spec rest
      else appendLayersSchema2 (spec\<lparr>Layers := Layers spec @ [s2_Digest layer]\<rparr>) rest)"

definition updateSpecDockerV2Schema2 :: "ImageSpec \<Rightarrow> Schema2 \<Rightarrow> ImageSpec" where
  "updateSpecDockerV2Schema2 spec sch =
     appendLayersSchema2 (spec\<lparr>Config := s2_Digest (ConfigDescriptor sch)\<rparr>)
       (LayersDescriptors sch)"

fun appendLayersManifest :: "ImageSpec \<Rightarrow> Descriptor list \<Rightarrow> ImageSpec" where
  "appendLayersManifest spec [] = spec"
| "appendLayersManifest spec (layer # rest) =
     (if length (d_URLs layer) \<noteq> 0 then appendLayersManifest spec rest
      else appendLayersManifest (spec\<lparr>Layers := Layers spec @ [d_Digest layer]\<rparr>) rest)"

definition updateSpecImageManifest :: "ImageSpec \<Rightarrow> Manifest \<Rightarrow> ImageSpec" where
  "updateSpecImageManifest spec m =
     appendLayersManifest (spec\<lparr>Config := d_Digest (m_Config m)\<rparr>) (m_Layers m)"

section \<open>Session state\<close>

text \<open>\<open>recordCopiedImage\<close> returns the session and its error, which is always nil.\<close>

definition recordCopiedImage :: "Source \<Rightarrow> ImageSpec \<Rightarrow> Source \<times> error option" where
  "recordCopiedImage s img =
     (s\<lparr>copiedList := copiedList s @ [img],
        copiedArch := AList.update (Arch img) True (copiedArch s),
        copiedOS := AList.update (OS img) True (copiedOS s)\<rparr>, None)"

text \<open>
  Ranging over a Go map visits the keys in an order the runtime chooses. The choice is
  a parameter: a rank on keys, the keys being visited by increasing rank (ties in the
  order of insertion). Every order of distinct keys is the order of some rank.
\<close>

definition rangeKeys :: "(string \<Rightarrow> nat) \<Rightarrow> (string \<times> bool) list \<Rightarrow> string list" where
  "rangeKeys rank m = sort_key rank (map fst m)"

definition GetCopiedImage :: "(string \<Rightarrow> nat) \<Rightarrow> Source \<Rightarrow> Image" where
  "GetCopiedImage rank s =
     \<lparr>img_Source = registry s @ ''/'' @ project s @ ''/'' @ name s,
      Tag = tag s,
      ArchList = rangeKeys rank (copiedArch s),
      OsList = rangeKeys rank (copiedOS s),
      Images = copiedList s\<rparr>"

section \<open>Collaborators\<close>

text \<open>
  Modelled from the spec: the declaration of the destination kinds (package \<open>types\<close>)
  is not among the sources. The spec says: one of the enumerated destination kinds,
  including an OCI on-disk layout. Only \<open>TypeOci\<close> is named by the flows.
\<close>

datatype ImageType = TypeDocker | TypeOci

record Destination =
  dst_Type :: ImageType
  Directory :: string
  ReferenceName :: string
  dst_SystemContext :: SystemContext

record CopyOptions =
  SigstorePrivateKey :: string
  SigstorePassphrase :: bytes
  RemoveSignatures :: bool
  Destination :: Destination
  Set_filter :: FilterSet
  Policy :: SignaturePolicy

record copyOptions =
  sigstorePrivateKey :: string
  sigstorePrivateKeyPassphrase :: bytes
  removeSignatures :: bool
  sourceRef :: ImageReference
  destRef :: ImageReference
  sourceCtx :: SystemContext
  destCtx :: SystemContext
  policy :: SignaturePolicy
  sourceMIME :: string

text \<open>The options handed to the library's copier, and the copier's own options.\<close>

record Options =
  v5_RemoveSignatures :: bool
  v5_SignBySigstorePrivateKeyFile :: string
  v5_SignSigstorePrivateKeyPassphrase :: bytes
  v5_SourceCtx :: SystemContext
  v5_DestinationCtx :: SystemContext
  v5_PreserveDigests :: bool
  v5_MaxParallelDownloads :: nat
  v5_ForceManifestMIMEType :: string

record CopierOption =
  co_Options :: Options
  co_MaxRetry :: nat
  co_Delay_ms :: nat
  co_SourceRef :: ImageReference
  co_DestRef :: ImageReference
  co_Policy :: SignaturePolicy

text \<open>
  The world outside the session: the state \<open>ext\<close> of registries and disks, of a type
  the model leaves open, and the record of the writes made so far: every invocation of
  the underlying copier, with its options, and every \<open>os.Rename\<close>, with its two paths.
\<close>

record 'w World =
  ext :: 'w
  copies :: "CopierOption list"
  renames :: "(string \<times> string) list"

text \<open>
  The collaborators, as parameters. Reads (\<open>HaveDigest\<close>, the inspector) see the
  external state and leave it alone; the copier and \<open>os.Rename\<close> return a new one.
  \<open>Reference\<close> is the session's own typed reference; \<open>Encoded\<close> is the digest's
  encoded part (digests are taken as well formed, so that it returns);
  \<open>Unmarshal_Image\<close> and \<open>Unmarshal_Manifest\<close> are \<open>json.Unmarshal\<close> into an
  image config and into an OCI manifest; \<open>rangeRank\<close> is the order in which the
  runtime ranges over a map. Logging, the cancellation context and the deferred
  \<open>inspector.Close()\<close> are left out: no flow reads what they do.
\<close>

record 'w Env =
  HaveDigest :: "'w \<Rightarrow> digest \<Rightarrow> bool"
  ParseImageName :: "string \<Rightarrow> error + ImageReference"
  ReferenceMultiArch :: "string \<Rightarrow> string \<Rightarrow> string \<Rightarrow> string \<Rightarrow> string \<Rightarrow> error + ImageReference"
  Reference :: "Source \<Rightarrow> error + ImageReference"
  Encoded :: "digest \<Rightarrow> string"
  copier_Copy :: "CopierOption \<Rightarrow> 'w \<Rightarrow> error option \<times> 'w"
  NewInspector :: "'w \<Rightarrow> ImageReference \<Rightarrow> SystemContext \<Rightarrow> error + Inspector"
  Raw :: "'w \<Rightarrow> Inspector \<Rightarrow> error + (bytes \<times> string)"
  inspector_Config :: "'w \<Rightarrow> Inspector \<Rightarrow> error + bytes"
  manifest_Digest :: "bytes \<Rightarrow> error + digest"
  Schema2FromManifest :: "bytes \<Rightarrow> error + Schema2"
  Unmarshal_Image :: "bytes \<Rightarrow> error + OCIConfig"
  Unmarshal_Manifest :: "bytes \<Rightarrow> error + Manifest"
  filepath_Join :: "string \<Rightarrow> string \<Rightarrow> string"
  os_Rename :: "string \<Rightarrow> string \<Rightarrow> 'w \<Rightarrow> error option \<times> 'w"
  rangeRank :: "string \<Rightarrow> nat"

section \<open>The single-image copier\<close>

definition runCopier ::
  "'w Env \<Rightarrow> copyOptions \<Rightarrow> Options \<Rightarrow> 'w World \<Rightarrow> error option \<times> 'w World" where
  "runCopier env opt copyOpts W =
     (let copier = \<lparr>co_Options = copyOpts, co_MaxRetry = 3, co_Delay_ms = 100,
                     co_SourceRef = sourceRef opt, co_DestRef = destRef opt,
                     co_Policy = policy opt\<rparr>
      in case copier_Copy env copier (ext W) of
           (err, w') \<Rightarrow> (err, W\<lparr>ext := w', copies := copies W @ [copier]\<rparr>))"

definition copyImage :: "'w Env \<Rightarrow> copyOptions \<Rightarrow> 'w World \<Rightarrow> error option \<times> 'w World" where
  "copyImage env opt W =
     (let copyOpts =
            \<lparr>v5_RemoveSignatures = removeSignatures opt,
             v5_SignBySigstorePrivateKeyFile = sigstorePrivateKey opt,
             v5_SignSigstorePrivateKeyPassphrase = sigstorePrivateKeyPassphrase opt,
             v5_SourceCtx = sourceCtx opt,
             v5_DestinationCtx = destCtx opt,
             v5_PreserveDigests = True,
             v5_MaxParallelDownloads = 3,
             v5_ForceManifestMIMEType = ''''\<rparr>
      in if sourceMIME opt = DockerV2Schema1MediaType
            \<or> sourceMIME opt = DockerV2Schema1SignedMediaType
         then runCopier env opt
                (copyOpts\<lparr>v5_PreserveDigests := False,
                          v5_ForceManifestMIMEType := DockerV2Schema2MediaType\<rparr>) W
         else if sourceMIME opt = DockerV2ListMediaType
                 \<or> sourceMIME opt = MediaTypeImageIndex
         then (Some (NotSingleImage (sourceMIME opt)), W)
         else runCopier env opt copyOpts W)"

text \<open>The options every flow builds for \<open>copyImage\<close>.\<close>

definition mkCopyOptions ::
  "CopyOptions \<Rightarrow> Source \<Rightarrow> ImageReference \<Rightarrow> ImageReference \<Rightarrow> string \<Rightarrow> copyOptions" where
  "mkCopyOptions opts s sref dref m =
     \<lparr>sigstorePrivateKey = SigstorePrivateKey opts,
      sigstorePrivateKeyPassphrase = SigstorePassphrase opts,
      removeSignatures = RemoveSignatures opts,
      sourceRef = sref,
      destRef = dref,
      sourceCtx = systemCtx s,
      destCtx = dst_SystemContext (Destination opts),
      policy = Policy opts,
      sourceMIME = m\<rparr>"

section \<open>The list flows\<close>

text \<open>
  The bodies of the two loops are the same text up to the message that wraps a failure
  of \<open>manifest.Digest\<close>; the body is given once, in its stages, and takes the
  message, the entry's media type, digest and platform. The loop variables are the
  session, the world, \<open>copiedNum\<close> and \<open>errs\<close>.
\<close>

record 'w LoopState =
  st_source :: Source
  st_world :: "'w World"
  copiedNum :: nat
  errs :: "error list"

text \<open>The block guarded by \<open>needInspectConfig\<close>: the backfill from the image config.\<close>

definition inspectConfig ::
  "'w Env \<Rightarrow> 'w \<Rightarrow> Inspector \<Rightarrow> string \<Rightarrow> string \<Rightarrow> string \<Rightarrow> string \<Rightarrow> string list
     \<Rightarrow> error + (string \<times> string list \<times> string)" where
  "inspectConfig env w inspector osInfo arch variant osVersion osFeatures =
     (if needInspectConfig osInfo arch variant osVersion osFeatures then
        (case inspector_Config env w inspector of
           Inl err \<Rightarrow> Inl (Errorf ''inspector.Config failed: '' err)
         | Inr c \<Rightarrow>
        (case Unmarshal_Image env c of
           Inl err \<Rightarrow> Inl (Errorf ''failed to unmarshal OCI config: '' err)
         | Inr cfg \<Rightarrow>
             Inr (if osVersion = '''' then c_OSVersion cfg else osVersion,
                  if length osFeatures = 0 then c_OSFeatures cfg else osFeatures,
                  if variant = '''' then c_Variant cfg else variant)))
      else Inr (osVersion, osFeatures, variant))"

text \<open>From \<open>NewInspector\<close> to the switch on the copied image's media type.\<close>

definition inspectCopied ::
  "'w Env \<Rightarrow> CopyOptions \<Rightarrow> 'w \<Rightarrow> string \<Rightarrow> ImageReference \<Rightarrow> string \<Rightarrow> Platform
     \<Rightarrow> error + ImageSpec" where
  "inspectCopied env opts w digmsg dref mt p =
     (case NewInspector env w dref (dst_SystemContext (Destination opts)) of
        Inl err \<Rightarrow> Inl (Errorf ''newInspector failed: '' err)
      | Inr inspector \<Rightarrow>
     (case Raw env w inspector of
        Inl err \<Rightarrow> Inl (Errorf ''inspector.Raw failed: '' err)
      | Inr (b, imageMIME) \<Rightarrow>
     (case inspectConfig env w inspector (p_OS p) (p_Architecture p) (p_Variant p)
             (p_OSVersion p) (p_OSFeatures p) of
        Inl err \<Rightarrow> Inl err
      | Inr (osVersion, osFeatures, variant) \<Rightarrow>
     (case manifest_Digest env b of
        Inl err \<Rightarrow> Inl (Errorf digmsg err)
      | Inr manifestDigest' \<Rightarrow>
          (let spec = \<lparr>Arch = p_Architecture p, OS = p_OS p, OSVersion = osVersion,
                       OSFeatures = osFeatures, Variant = variant, MediaType = mt,
                       Layers = [], Config = '''', Digest = manifestDigest'\<rparr>
           in if imageMIME = DockerV2Schema2MediaType then
                (case Schema2FromManifest env b of
                   Inl err \<Rightarrow> Inl err
                 | Inr sch \<Rightarrow> Inr (updateSpecDockerV2Schema2 spec sch))
              else if imageMIME = MediaTypeImageManifest then
                (case Unmarshal_Manifest env b of
                   Inl err \<Rightarrow> Inl err
                 | Inr m \<Rightarrow> Inr (updateSpecImageManifest spec m))
              else Inl (Opaque (''copied image mime unknow: '' @ imageMIME)))))))"

text \<open>An entry past the filter and the fast path: resolve, copy, inspect, record.\<close>

definition copyEntry ::
  "'w Env \<Rightarrow> CopyOptions \<Rightarrow> string \<Rightarrow> string \<Rightarrow> digest \<Rightarrow> Platform
     \<Rightarrow> 'w LoopState \<Rightarrow> 'w LoopState" where
  "copyEntry env opts digmsg mt dig p st =
     (let s = st_source st; W = st_world st in
      case ParseImageName env
             (transport s @ registry s @ ''/'' @ project s @ ''/'' @ name s @ ''@'' @ dig) of
        Inl err \<Rightarrow> st\<lparr>errs := errs st @ [err]\<rparr>
      | Inr sref \<Rightarrow>
     (case ReferenceMultiArch env (p_OS p) (p_OSVersion p) (p_Architecture p) (p_Variant p)
             (Encoded env dig) of
        Inl err \<Rightarrow> st\<lparr>errs := errs st @ [err]\<rparr>
      | Inr dref \<Rightarrow>
     (case copyImage env (mkCopyOptions opts s sref dref mt) W of
        (Some err, W1) \<Rightarrow> st\<lparr>st_world := W1, errs := errs st @ [err]\<rparr>
      | (None, W1) \<Rightarrow>
     (case inspectCopied env opts (ext W1) digmsg dref mt p of
        Inl err \<Rightarrow> st\<lparr>st_world := W1, errs := errs st @ [err]\<rparr>
      | Inr spec \<Rightarrow>
     (case recordCopiedImage s spec of
        (s1, Some err) \<Rightarrow> st\<lparr>st_source := s1, st_world := W1, errs := errs st @ [err]\<rparr>
      | (s1, None) \<Rightarrow>
          st\<lparr>st_source := s1, st_world := W1, copiedNum := copiedNum st + 1\<rparr>)))))"

text \<open>The whole body: the filter, the fast path, then the copy.\<close>

definition listEntry ::
  "'w Env \<Rightarrow> CopyOptions \<Rightarrow> string \<Rightarrow> string \<Rightarrow> digest \<Rightarrow> Platform
     \<Rightarrow> 'w LoopState \<Rightarrow> 'w LoopState" where
  "listEntry env opts digmsg mt dig p st =
     (if \<not> Allow (Set_filter opts) (p_Architecture p) (p_OS p) (p_Variant p) then st
      else if SigstorePrivateKey opts = '''' \<and> HaveDigest env (ext (st_world st)) dig
      then st\<lparr>copiedNum := copiedNum st + 1\<rparr>
      else copyEntry env opts digmsg mt dig p st)"

fun listLoop ::
  "'w Env \<Rightarrow> CopyOptions \<Rightarrow> Schema2ManifestDescriptor list \<Rightarrow> 'w LoopState \<Rightarrow> 'w LoopState" where
  "listLoop env opts [] st = st"
| "listLoop env opts (m # ms) st =
     listLoop env opts ms
       (listEntry env opts ''failed to get digest: '' (s2_MediaType m) (s2_Digest m)
          (s2_Platform m) st)"

text \<open>
  In the index loop the entry's platform is read through a pointer: on a nil platform
  the flow panics, which is the value \<open>None\<close>.
\<close>

fun indexLoop ::
  "'w Env \<Rightarrow> CopyOptions \<Rightarrow> Descriptor list \<Rightarrow> 'w LoopState \<Rightarrow> 'w LoopState option" where
  "indexLoop env opts [] st = Some st"
| "indexLoop env opts (m # ms) st =
     (case d_Platform m of
        None \<Rightarrow> None
      | Some p \<Rightarrow>
          indexLoop env opts ms
            (listEntry env opts ''imagemanifest.Digest failed: '' (d_MediaType m) (d_Digest m)
               p st))"

text \<open>After the loop: the count, and the composite error when \<open>errs\<close> is not empty.\<close>

definition listResult ::
  "CopyOptions \<Rightarrow> Source \<Rightarrow> 'w LoopState \<Rightarrow> Source \<times> 'w World \<times> nat \<times> error option" where
  "listResult opts s st =
     (if length (errs st) > 0 then
        (st_source st, st_world st, copiedNum st,
         Some (Errorf (''error occurred when copy image ['' @ referenceName s @ ''] => [''
                         @ ReferenceName (Destination opts) @ '']: '')
                 (Join (errs st))))
      else (st_source st, st_world st, copiedNum st, None))"

definition initLoop :: "Source \<Rightarrow> 'w World \<Rightarrow> 'w LoopState" where
  "initLoop s W = \<lparr>st_source = s, st_world = W, copiedNum = 0, errs = []\<rparr>"

definition copyDockerV2ListMediaType ::
  "'w Env \<Rightarrow> CopyOptions \<Rightarrow> Source \<Rightarrow> 'w World \<Rightarrow> Source \<times> 'w World \<times> nat \<times> error option" where
  "copyDockerV2ListMediaType env opts s W =
     listResult opts s (listLoop env opts (schema2List s) (initLoop s W))"

definition copyMediaTypeImageIndex ::
  "'w Env \<Rightarrow> CopyOptions \<Rightarrow> Source \<Rightarrow> 'w World
     \<Rightarrow> (Source \<times> 'w World \<times> nat \<times> error option) option" where
  "copyMediaTypeImageIndex env opts s W =
     map_option (listResult opts s) (indexLoop env opts (ociIndex s) (initLoop s W))"

section \<open>The single-image flows\<close>

definition copyDockerV2Schema2MediaType ::
  "'w Env \<Rightarrow> CopyOptions \<Rightarrow> Source \<Rightarrow> 'w World \<Rightarrow> Source \<times> 'w World \<times> error option" where
  "copyDockerV2Schema2MediaType env opts s W =
     (let arch = c_Architecture (ociConfig s); osInfo = c_OS (ociConfig s);
          osVersion = c_OSVersion (ociConfig s); osFeatures = c_OSFeatures (ociConfig s);
          variant = c_Variant (ociConfig s)
      in if \<not> Allow (Set_filter opts) arch osInfo variant then (s, W, Some ErrNoAvailableImage)
         else if SigstorePrivateKey opts = '''' \<and> HaveDigest env (ext W) (manifestDigest s)
         then (s, W, None)
         else
     (case Reference env s of
        Inl err \<Rightarrow> (s, W, Some err)
      | Inr sref \<Rightarrow>
     (case ReferenceMultiArch env osInfo osVersion arch variant
             (Encoded env (manifestDigest s)) of
        Inl err \<Rightarrow> (s, W, Some err)
      | Inr dref \<Rightarrow>
     (case copyImage env (mkCopyOptions opts s sref dref (mime s)) W of
        (Some err, W1) \<Rightarrow> (s, W1, Some err)
      | (None, W1) \<Rightarrow>
          (let spec = \<lparr>Arch = arch, OS = osInfo, OSVersion = osVersion,
                       OSFeatures = osFeatures, Variant = variant, MediaType = mime s,
                       Layers = [], Config = s2_Digest (ConfigDescriptor (schema2 s)),
                       Digest = manifestDigest s\<rparr>
           in case recordCopiedImage s (updateSpecDockerV2Schema2 spec (schema2 s)) of
                (s1, err) \<Rightarrow> (s1, W1, err))))))"

text \<open>The fixup of the schema-1 flow: the rename of the staged directory.\<close>

definition renameStaged ::
  "'w Env \<Rightarrow> CopyOptions \<Rightarrow> digest \<Rightarrow> 'w World \<Rightarrow> error option \<times> 'w World" where
  "renameStaged env opts md W =
     (if dst_Type (Destination opts) = TypeOci then
        (let old = filepath_Join env (Directory (Destination opts)) ''UNKNOW'';
             new = filepath_Join env (Directory (Destination opts)) (Encoded env md)
         in case os_Rename env old new (ext W) of
              (err, w') \<Rightarrow>
                (map_option
                   (Errorf (''failed to rename ['' @ old @ ''] to ['' @ new @ '']: '')) err,
                 W\<lparr>ext := w', renames := renames W @ [(old, new)]\<rparr>))
      else (None, W))"

definition copyDockerV2Schema1MediaType ::
  "'w Env \<Rightarrow> CopyOptions \<Rightarrow> Source \<Rightarrow> 'w World \<Rightarrow> Source \<times> 'w World \<times> error option" where
  "copyDockerV2Schema1MediaType env opts s W =
     (let arch = ii_Architecture (imageInspectInfo s); osInfo = ii_Os (imageInspectInfo s);
          osVersion = ''''; variant = ii_Variant (imageInspectInfo s)
      in if \<not> Allow (Set_filter opts) arch osInfo variant then (s, W, Some ErrNoAvailableImage)
         else
     (case Reference env s of
        Inl err \<Rightarrow> (s, W, Some err)
      | Inr sref \<Rightarrow>
     (case ReferenceMultiArch env osInfo osVersion arch variant ''UNKNOW'' of
        Inl err \<Rightarrow> (s, W, Some err)
      | Inr dref \<Rightarrow>
     (case copyImage env (mkCopyOptions opts s sref dref (mime s)) W of
        (Some err, W1) \<Rightarrow> (s, W1, Some err)
      | (None, W1) \<Rightarrow>
     (case NewInspector env (ext W1) dref (dst_SystemContext (Destination opts)) of
        Inl err \<Rightarrow> (s, W1, Some err)
      | Inr inspector \<Rightarrow>
     (case Raw env (ext W1) inspector of
        Inl err \<Rightarrow> (s, W1, Some err)
      | Inr (b, mt) \<Rightarrow>
     (case manifest_Digest env b of
        Inl err \<Rightarrow> (s, W1, Some (Errorf ''failed to get digest: '' err))
      | Inr manifestDigest' \<Rightarrow>
     (case Schema2FromManifest env b of
        Inl err \<Rightarrow> (s, W1, Some err)
      | Inr sch \<Rightarrow>
          (let spec = \<lparr>Arch = arch, OS = osInfo, OSVersion = osVersion, OSFeatures = [],
                       Variant = variant, MediaType = mt, Layers = [],
                       Config = s2_Digest (ConfigDescriptor sch), Digest = manifestDigest'\<rparr>
           in case renameStaged env opts manifestDigest' W1 of
                (Some err, W2) \<Rightarrow> (s, W2, Some err)
              | (None, W2) \<Rightarrow>
                  (case recordCopiedImage s (updateSpecDockerV2Schema2 spec sch) of
                     (s1, err) \<Rightarrow> (s1, W2, err)))))))))))"

definition copyMediaTypeImageManifest ::
  "'w Env \<Rightarrow> CopyOptions \<Rightarrow> Source \<Rightarrow> 'w World \<Rightarrow> Source \<times> 'w World \<times> error option" where
  "copyMediaTypeImageManifest env opts s W =
     (let arch = c_Architecture (ociConfig s); osInfo = c_OS (ociConfig s);
          osVersion = c_OSVersion (ociConfig s); osFeatures = c_OSFeatures (ociConfig s);
          variant = c_Variant (ociConfig s)
      in if \<not> Allow (Set_filter opts) arch osInfo variant then (s, W, Some ErrNoAvailableImage)
         else
     (case Reference env s of
        Inl err \<Rightarrow> (s, W, Some err)
      | Inr sref \<Rightarrow>
     (case ReferenceMultiArch env osInfo osVersion arch variant
             (Encoded env (manifestDigest s)) of
        Inl err \<Rightarrow> (s, W, Some err)
      | Inr dref \<Rightarrow>
     (case copyImage env (mkCopyOptions opts s sref dref (mime s)) W of
        (Some err, W1) \<Rightarrow> (s, W1, Some err)
      | (None, W1) \<Rightarrow>
          (let spec = \<lparr>Arch = arch, OS = osInfo, OSVersion = osVersion,
                       OSFeatures = osFeatures, Variant = variant, MediaType = mime s,
                       Layers = [], Config = d_Digest (m_Config (ociManifest s)),
                       Digest = manifestDigest s\<rparr>
           in case recordCopiedImage s (updateSpecImageManifest spec (ociManifest s)) of
                (s1, err) \<Rightarrow> (s1, W1, err))))))"

section \<open>The dispatcher\<close>

text \<open>What \<open>Copy\<close> makes of a list flow's count and error.\<close>

definition listOutcome ::
  "Source \<times> 'w World \<times> nat \<times> error option \<Rightarrow> Source \<times> 'w World \<times> error option" where
  "listOutcome r =
     (case r of (s1, W1, num, err) \<Rightarrow>
        if err \<noteq> None then (s1, W1, err)
        else if num = 0 then (s1, W1, Some ErrNoAvailableImage)
        else (s1, W1, None))"

text \<open>\<open>Copy\<close> returns the session, the world and the error; \<open>None\<close> is a panic.\<close>

definition Copy ::
  "'w Env \<Rightarrow> CopyOptions \<Rightarrow> Source \<Rightarrow> 'w World \<Rightarrow> (Source \<times> 'w World \<times> error option) option" where
  "Copy env opts s W =
     (if mime s = DockerV2ListMediaType then
        Some (listOutcome (copyDockerV2ListMediaType env opts s W))
      else if mime s = MediaTypeImageIndex then
        map_option listOutcome (copyMediaTypeImageIndex env opts s W)
      else if mime s = DockerV2Schema2MediaType then
        Some (copyDockerV2Schema2MediaType env opts s W)
      else if mime s = DockerV2Schema1MediaType \<or> mime s = DockerV2Schema1SignedMediaType then
        Some (copyDockerV2Schema1MediaType env opts s W)
      else if mime s = MediaTypeImageManifest then
        Some (copyMediaTypeImageManifest env opts s W)
      else Some (s, W, Some (UnsupportedMIME (mime s) (referenceName s))))"

section \<open>The errors and the count of a list, entry by entry\<close>

text \<open>
  The error with which the loop body leaves an entry, read off the body's steps: the
  error of the first step that fails (the body appends it to \<open>errs\<close> and goes on to the
  next entry), and no error when the entry is filtered, skipped on the fast path, or
  copied and recorded. The steps are taken at the loop variables \<open>st\<close> that the loop
  has reached.
\<close>

definition entryError ::
  "'w Env \<Rightarrow> CopyOptions \<Rightarrow> string \<Rightarrow> string \<Rightarrow> digest \<Rightarrow> Platform
     \<Rightarrow> 'w LoopState \<Rightarrow> error option" where
  "entryError env opts digmsg mt dig p st =
     (let s = st_source st; W = st_world st in
      if \<not> Allow (Set_filter opts) (p_Architecture p) (p_OS p) (p_Variant p) then None
      else if SigstorePrivateKey opts = '''' \<and> HaveDigest env (ext W) dig then None
      else
     (case ParseImageName env
             (transport s @ registry s @ ''/'' @ project s @ ''/'' @ name s @ ''@'' @ dig) of
        Inl err \<Rightarrow> Some err
      | Inr sref \<Rightarrow>
     (case ReferenceMultiArch env (p_OS p) (p_OSVersion p) (p_Architecture p) (p_Variant p)
             (Encoded env dig) of
        Inl err \<Rightarrow> Some err
      | Inr dref \<Rightarrow>
     (case copyImage env (mkCopyOptions opts s sref dref mt) W of
        (Some err, W1) \<Rightarrow> Some err
      | (None, W1) \<Rightarrow>
     (case inspectCopied env opts (ext W1) digmsg dref mt p of
        Inl err \<Rightarrow> Some err
      | Inr spec \<Rightarrow> snd (recordCopiedImage s spec))))))"

text \<open>An entry is copied when the filter allows it and the body leaves it without error.\<close>

definition entryCopied ::
  "'w Env \<Rightarrow> CopyOptions \<Rightarrow> string \<Rightarrow> string \<Rightarrow> digest \<Rightarrow> Platform
     \<Rightarrow> 'w LoopState \<Rightarrow> bool" where
  "entryCopied env opts digmsg mt dig p st =
     (Allow (Set_filter opts) (p_Architecture p) (p_OS p) (p_Variant p)
      \<and> entryError env opts digmsg mt dig p st = None)"

text \<open>
  The per-entry errors of a list, in the order of the entries, and the number of its
  copied entries; each entry is taken at the loop variables that the body has left for
  it. (The index functions pass over an entry without a platform, on which the index
  loop panics.)
\<close>

fun listErrors ::
  "'w Env \<Rightarrow> CopyOptions \<Rightarrow> Schema2ManifestDescriptor list \<Rightarrow> 'w LoopState \<Rightarrow> error list" where
  "listErrors env opts [] st = []"
| "listErrors env opts (m # ms) st =
     (case entryError env opts ''failed to get digest: '' (s2_MediaType m) (s2_Digest m)
             (s2_Platform m) st of
        None \<Rightarrow> []
      | Some e \<Rightarrow> [e])
     @ listErrors env opts ms
         (listEntry env opts ''failed to get digest: '' (s2_MediaType m) (s2_Digest m)
            (s2_Platform m) st)"

fun listCopied ::
  "'w Env \<Rightarrow> CopyOptions \<Rightarrow> Schema2ManifestDescriptor list \<Rightarrow> 'w LoopState \<Rightarrow> nat" where
  "listCopied env opts [] st = 0"
| "listCopied env opts (m # ms) st =
     (if entryCopied env opts ''failed to get digest: '' (s2_MediaType m) (s2_Digest m)
           (s2_Platform m) st
      then 1 else 0)
     + listCopied env opts ms
         (listEntry env opts ''failed to get digest: '' (s2_MediaType m) (s2_Digest m)
            (s2_Platform m) st)"

fun indexErrors ::
  "'w Env \<Rightarrow> CopyOptions \<Rightarrow> Descriptor list \<Rightarrow> 'w LoopState \<Rightarrow> error list" where
  "indexErrors env opts [] st = []"
| "indexErrors env opts (m # ms) st =
     (case d_Platform m of
        None \<Rightarrow> indexErrors env opts ms st
      | Some p \<Rightarrow>
          (case entryError env opts ''imagemanifest.Digest failed: '' (d_MediaType m)
                  (d_Digest m) p st of
             None \<Rightarrow> []
           | Some e \<Rightarrow> [e])
          @ indexErrors env opts ms
              (listEntry env opts ''imagemanifest.Digest failed: '' (d_MediaType m)
                 (d_Digest m) p st))"

fun indexCopied ::
  "'w Env \<Rightarrow> CopyOptions \<Rightarrow> Descriptor list \<Rightarrow> 'w LoopState \<Rightarrow> nat" where
  "indexCopied env opts [] st = 0"
| "indexCopied env opts (m # ms) st =
     (case d_Platform m of
        None \<Rightarrow> indexCopied env opts ms st
      | Some p \<Rightarrow>
          (if entryCopied env opts ''imagemanifest.Digest failed: '' (d_MediaType m)
                (d_Digest m) p st
           then 1 else 0)
          + indexCopied env opts ms
              (listEntry env opts ''imagemanifest.Digest failed: '' (d_MediaType m)
                 (d_Digest m) p st))"

section \<open>Sequences of recordings and the agreement of the accumulators\<close>

definition recordAll :: "Source \<Rightarrow> ImageSpec list \<Rightarrow> Source" where
  "recordAll s specs = foldl (\<lambda>s' spec. fst (recordCopiedImage s' spec)) s specs"

text \<open>
  The keys of \<open>copiedArch\<close> and \<open>copiedOS\<close> are the architectures and the systems of
  the recorded specs. A session starts with the three accumulators empty.
\<close>

definition accumulatorsAgree :: "Source \<Rightarrow> bool" where
  "accumulatorsAgree s =
     (distinct (map fst (copiedArch s)) \<and> set (map fst (copiedArch s)) = set (map Arch (copiedList s))
      \<and> distinct (map fst (copiedOS s)) \<and> set (map fst (copiedOS s)) = set (map OS (copiedList s)))"

text \<open>
  What ties a recorded spec to the platform of the list entry it was copied from: the
  architecture and the system are the entry's, the filter allowed the entry, and the
  variant is the entry's, unless the entry had none and the config was to be inspected.
\<close>

definition recordedFrom :: "FilterSet \<Rightarrow> Platform \<Rightarrow> ImageSpec \<Rightarrow> bool" where
  "recordedFrom fs p spec =
     (Arch spec = p_Architecture p \<and> OS spec = p_OS p
      \<and> Allow fs (p_Architecture p) (p_OS p) (p_Variant p)
      \<and> (Variant spec = p_Variant p
           \<or> p_Variant p = ''''
             \<and> needInspectConfig (p_OS p) (p_Architecture p) '''' (p_OSVersion p)
                  (p_OSFeatures p)))"

section \<open>A concrete session\<close>

text \<open>
  A destination that already has the digest \<open>sha256:aa\<close>, a copier that fails on the
  source digest \<open>sha256:ee\<close> and counts the copies it made, a disk on which a rename
  adds 100 to the state, and an image whose copied manifest is a schema-2 manifest with
  one local and one foreign layer.
\<close>

definition exSchema2 :: Schema2 where
  "exSchema2 =
     \<lparr>ConfigDescriptor = \<lparr>s2_MediaType = ''cfg'', s2_Digest = ''sha256:cc'', s2_URLs = []\<rparr>,
      LayersDescriptors =
        [\<lparr>s2_MediaType = ''layer'', s2_Digest = ''sha256:l1'', s2_URLs = []\<rparr>,
         \<lparr>s2_MediaType = ''layer'', s2_Digest = ''sha256:l2'', s2_URLs = [''http://x'']\<rparr>]\<rparr>"

definition exManifest :: Manifest where
  "exManifest =
     \<lparr>m_Config = \<lparr>d_MediaType = ''cfg'', d_Digest = ''sha256:cc'', d_URLs = [],
                   d_Platform = None\<rparr>,
      m_Layers =
        [\<lparr>d_MediaType = ''layer'', d_Digest = ''sha256:l1'', d_URLs = [], d_Platform = None\<rparr>,
         \<lparr>d_MediaType = ''layer'', d_Digest = ''sha256:l2'', d_URLs = [''http://x''],
          d_Platform = None\<rparr>]\<rparr>"

definition exEnv :: "nat Env" where
  "exEnv =
     \<lparr>HaveDigest = (\<lambda>w d. d = ''sha256:aa''),
      ParseImageName = (\<lambda>n. Inr n),
      ReferenceMultiArch = (\<lambda>osInfo osVersion arch variant enc. Inr (''/out/'' @ enc)),
      Reference = (\<lambda>s. Inr (referenceName s)),
      Encoded = drop 7,
      copier_Copy = (\<lambda>c w. if co_SourceRef c = ''docker://r/p/n@sha256:ee''
                             then (Some (Opaque ''transport''), w) else (None, Suc w)),
      NewInspector = (\<lambda>w r ctx. Inr r),
      Raw = (\<lambda>w i. Inr (''bytes'', DockerV2Schema2MediaType)),
      inspector_Config = (\<lambda>w i. Inr ''config''),
      manifest_Digest = (\<lambda>b. Inr ''sha256:dd''),
      Schema2FromManifest = (\<lambda>b. Inr exSchema2),
      Unmarshal_Image = (\<lambda>c. Inr \<lparr>c_Architecture = ''arm'', c_OS = ''linux'', c_OSVersion = '''',
                                    c_OSFeatures = [], c_Variant = ''v7''\<rparr>),
      Unmarshal_Manifest = (\<lambda>b. Inr exManifest),
      filepath_Join = (\<lambda>a b. a @ ''/'' @ b),
      os_Rename = (\<lambda>a b w. (None, w + 100)),
      rangeRank = (\<lambda>k. 0)\<rparr>"

definition exWorld :: "nat World" where
  "exWorld = \<lparr>ext = 0, copies = [], renames = []\<rparr>"

definition exOpts :: CopyOptions where
  "exOpts =
     \<lparr>SigstorePrivateKey = '''', SigstorePassphrase = '''', RemoveSignatures = False,
      Destination = \<lparr>dst_Type = TypeOci, Directory = ''/out'', ReferenceName = ''oci:/out'',
                      dst_SystemContext = ''dctx''\<rparr>,
      Set_filter = \<lparr>fs_arch = {}, fs_os = {}, fs_variant = {}\<rparr>,
      Policy = ''policy''\<rparr>"

definition exEntry :: "string \<Rightarrow> string \<Rightarrow> digest \<Rightarrow> Schema2ManifestDescriptor" where
  "exEntry arch variant dig =
     \<lparr>s2_MediaType = DockerV2Schema2MediaType, s2_Digest = dig, s2_URLs = [],
      s2_Platform = \<lparr>p_Architecture = arch, p_OS = ''linux'', p_OSVersion = '''',
                      p_OSFeatures = [], p_Variant = variant\<rparr>\<rparr>"

definition exIndexEntry :: "string \<Rightarrow> string \<Rightarrow> digest \<Rightarrow> Descriptor" where
  "exIndexEntry arch variant dig =
     \<lparr>d_MediaType = MediaTypeImageManifest, d_Digest = dig, d_URLs = [],
      d_Platform = Some \<lparr>p_Architecture = arch, p_OS = ''linux'', p_OSVersion = '''',
                          p_OSFeatures = [], p_Variant = variant\<rparr>\<rparr>"

text \<open>
  A session on a docker v2 list of three entries: \<open>amd64\<close> (already at the
  destination), \<open>arm64\<close> and \<open>arm\<close> without a variant. The single-image fields
  describe a \<open>linux/amd64\<close> image of digest \<open>sha256:aa\<close>.
\<close>

definition exSource :: Source where
  "exSource =
     \<lparr>mime = DockerV2ListMediaType, referenceName = ''r/p/n:1'', transport = ''docker://'',
      registry = ''r'', project = ''p'', name = ''n'', tag = ''1'', systemCtx = ''sctx'',
      manifestDigest = ''sha256:aa'',
      schema2List = [exEntry ''amd64'' '''' ''sha256:aa'', exEntry ''arm64'' ''v8'' ''sha256:bb'',
                     exEntry ''arm'' '''' ''sha256:ab''],
      ociIndex = [exIndexEntry ''amd64'' '''' ''sha256:aa'',
                  exIndexEntry ''arm64'' ''v8'' ''sha256:bb''],
      schema2 = exSchema2, ociManifest = exManifest,
      ociConfig = \<lparr>c_Architecture = ''amd64'', c_OS = ''linux'', c_OSVersion = '''',
                    c_OSFeatures = [], c_Variant = ''''\<rparr>,
      imageInspectInfo = \<lparr>ii_Architecture = ''amd64'', ii_Os = ''linux'', ii_Variant = ''''\<rparr>,
      copiedList = [], copiedArch = [], copiedOS = []\<rparr>"

text \<open>A filter that asks for images without a variant, and one that asks for \<open>arm\<close>.\<close>

definition exOptsNoVariant :: CopyOptions where
  "exOptsNoVariant = exOpts\<lparr>Set_filter := \<lparr>fs_arch = {}, fs_os = {}, fs_variant = {''''}\<rparr>\<rparr>"

definition exOptsArm :: CopyOptions where
  "exOptsArm = exOpts\<lparr>Set_filter := \<lparr>fs_arch = {''arm''}, fs_os = {}, fs_variant = {}\<rparr>\<rparr>"

text \<open>The specs that the copies of the \<open>arm64\<close> and of the \<open>arm\<close> entry record.\<close>

definition exSpecArm64 :: ImageSpec where
  "exSpecArm64 =
     \<lparr>Arch = ''arm64'', OS = ''linux'', OSVersion = '''', OSFeatures = [], Variant = ''v8'',
      MediaType = DockerV2Schema2MediaType, Layers = [''sha256:l1''], Config = ''sha256:cc'',
      Digest = ''sha256:dd''\<rparr>"

definition exSpecArm :: ImageSpec where
  "exSpecArm =
     \<lparr>Arch = ''arm'', OS = ''linux'', OSVersion = '''', OSFeatures = [], Variant = ''v7'',
      MediaType = DockerV2Schema2MediaType, Layers = [''sha256:l1''], Config = ''sha256:cc'',
      Digest = ''sha256:dd''\<rparr>"

text \<open>
  A list whose second entry the copier fails on, the world after that failed copy, and
  the composite error of the list flow.
\<close>

definition exSourceErr :: Source where
  "exSourceErr =
     exSource\<lparr>schema2List := [exEntry ''amd64'' '''' ''sha256:aa'',
                              exEntry ''arm'' ''v7'' ''sha256:ee'']\<rparr>"

definition exWorldErr :: "nat World" where
  "exWorldErr =
     \<lparr>ext = 0,
      copies = [\<lparr>co_Options =
                   \<lparr>v5_RemoveSignatures = False, v5_SignBySigstorePrivateKeyFile = '''',
                    v5_SignSigstorePrivateKeyPassphrase = '''', v5_SourceCtx = ''sctx'',
                    v5_DestinationCtx = ''dctx'', v5_PreserveDigests = True,
                    v5_MaxParallelDownloads = 3, v5_ForceManifestMIMEType = ''''\<rparr>,
                 co_MaxRetry = 3, co_Delay_ms = 100,
                 co_SourceRef = ''docker://r/p/n@sha256:ee'', co_DestRef = ''/out/ee'',
                 co_Policy = ''policy''\<rparr>],
      renames = []\<rparr>"

definition exCompositeErr :: error where
  "exCompositeErr =
     Errorf ''error occurred when copy image [r/p/n:1] => [oci:/out]: ''
       (Join [Opaque ''transport''])"

text \<open>The options with a sigstore key, and the first entry of the list and of the index.\<close>

definition exOptsKey :: CopyOptions where
  "exOptsKey = exOpts\<lparr>SigstorePrivateKey := ''key''\<rparr>"

definition exAmd64 :: Schema2ManifestDescriptor where
  "exAmd64 = exEntry ''amd64'' '''' ''sha256:aa''"

definition exIndexAmd64 :: Descriptor where
  "exIndexAmd64 = exIndexEntry ''amd64'' '''' ''sha256:aa''"

text \<open>A list with two \<open>amd64\<close> entries, the first already at the destination.\<close>

definition exSourceAmd64s :: Source where
  "exSourceAmd64s =
     exSource\<lparr>schema2List := [exAmd64, exEntry ''amd64'' '''' ''sha256:bb'']\<rparr>"

text \<open>A filter that no entry of the lists passes, and the entry the copier fails on.\<close>

definition exOptsS390x :: CopyOptions where
  "exOptsS390x = exOpts\<lparr>Set_filter := \<lparr>fs_arch = {''s390x''}, fs_os = {}, fs_variant = {}\<rparr>\<rparr>"

definition exArmEE :: Schema2ManifestDescriptor where
  "exArmEE = exEntry ''arm'' ''v7'' ''sha256:ee''"

text \<open>A schema-1 session, and a disk on which the rename fails.\<close>

definition exSourceSchema1 :: Source where
  "exSourceSchema1 = exSource\<lparr>mime := DockerV2Schema1SignedMediaType\<rparr>"

definition exEnvBusy :: "nat Env" where
  "exEnvBusy = exEnv\<lparr>os_Rename := (\<lambda>a b w. (Some (Opaque ''busy''), w))\<rparr>"

definition exSpecSchema1 :: ImageSpec where
  "exSpecSchema1 =
     \<lparr>Arch = ''amd64'', OS = ''linux'', OSVersion = '''', OSFeatures = [], Variant = '''',
      MediaType = DockerV2Schema2MediaType, Layers = [''sha256:l1''], Config = ''sha256:cc'',
      Digest = ''sha256:dd''\<rparr>"

text \<open>An OCI image manifest session and a docker schema-2 session, on the same image.\<close>

definition exSourceOCI :: Source where
  "exSourceOCI = exSource\<lparr>mime := MediaTypeImageManifest\<rparr>"

definition exSourceSchema2 :: Source where
  "exSourceSchema2 = exSource\<lparr>mime := DockerV2Schema2MediaType\<rparr>"

section \<open>The spec recorder: properties\<close>

lemmas mime_defs =
  DockerV2ListMediaType_def DockerV2Schema2MediaType_def DockerV2Schema1MediaType_def
  DockerV2Schema1SignedMediaType_def MediaTypeImageIndex_def MediaTypeImageManifest_def

lemma appendLayersSchema2_eq:
  "appendLayersSchema2 spec ls =
     spec\<lparr>Layers := Layers spec @ map s2_Digest (filter (\<lambda>l. s2_URLs l = []) ls)\<rparr>"
  by (induction ls arbitrary: spec) simp_all

lemma appendLayersManifest_eq:
  "appendLayersManifest spec ls =
     spec\<lparr>Layers := Layers spec @ map d_Digest (filter (\<lambda>l. d_URLs l = []) ls)\<rparr>"
  by (induction ls arbitrary: spec) simp_all

lemma updateSpecDockerV2Schema2_eq:
  "updateSpecDockerV2Schema2 spec sch =
     spec\<lparr>Config := s2_Digest (ConfigDescriptor sch),
          Layers := Layers spec
            @ map s2_Digest (filter (\<lambda>l. s2_URLs l = []) (LayersDescriptors sch))\<rparr>"
  by (simp add: updateSpecDockerV2Schema2_def appendLayersSchema2_eq)

lemma updateSpecImageManifest_eq:
  "updateSpecImageManifest spec m =
     spec\<lparr>Config := d_Digest (m_Config m),
          Layers := Layers spec @ map d_Digest (filter (\<lambda>l. d_URLs l = []) (m_Layers m))\<rparr>"
  by (simp add: updateSpecImageManifest_def appendLayersManifest_eq)

text \<open>
  Claim C3. \<open>needInspectConfig(os, arch, variant, osVersion, osFeatures)\<close> is true if
  and only if the system is \<open>windows\<close> and the version is the empty string or the
  features are empty, or the system is \<open>linux\<close>, the architecture \<open>arm\<close> and the
  variant the empty string; it is false for every other input.
\<close>

theorem needInspectConfig_policy:
  "needInspectConfig osInfo arch variant osVersion osFeatures \<longleftrightarrow>
     (osInfo = ''windows'' \<and> (osVersion = '''' \<or> osFeatures = [])
      \<or> osInfo = ''linux'' \<and> arch = ''arm'' \<and> variant = '''')"
  by auto

text \<open>
  Claim C4. \<open>updateSpecDockerV2Schema2\<close> and \<open>updateSpecImageManifest\<close> set the
  spec's \<open>Config\<close> to the digest of the manifest's config descriptor, and append to
  the spec's \<open>Layers\<close> the digests, in the manifest's order, of exactly the layer
  descriptors whose \<open>urls\<close> are empty: a layer with urls is left out.
\<close>

theorem updateSpec_config_layers:
  "Config (updateSpecDockerV2Schema2 spec sch) = s2_Digest (ConfigDescriptor sch)
   \<and> Layers (updateSpecDockerV2Schema2 spec sch) =
       Layers spec @ map s2_Digest (filter (\<lambda>l. s2_URLs l = []) (LayersDescriptors sch))
   \<and> Config (updateSpecImageManifest spec m) = d_Digest (m_Config m)
   \<and> Layers (updateSpecImageManifest spec m) =
       Layers spec @ map d_Digest (filter (\<lambda>l. d_URLs l = []) (m_Layers m))"
  by (simp add: updateSpecDockerV2Schema2_eq updateSpecImageManifest_eq)

section \<open>Recordings\<close>

lemma recordAll_Nil: "recordAll s [] = s"
  by (simp add: recordAll_def)

lemma recordAll_snoc:
  "recordAll s (specs @ [spec]) = fst (recordCopiedImage (recordAll s specs) spec)"
  by (simp add: recordAll_def)

lemma recordAll_append: "recordAll s (xs @ ys) = recordAll (recordAll s xs) ys"
  by (simp add: recordAll_def)

lemma recordAll_single: "fst (recordCopiedImage s spec) = recordAll s [spec]"
  by (simp add: recordAll_def)

lemma copiedList_recordAll: "copiedList (recordAll s specs) = copiedList s @ specs"
  by (induction specs rule: rev_induct)
     (simp_all add: recordAll_Nil recordAll_snoc recordCopiedImage_def)

lemma update_keys_distinct:
  "distinct (map fst al) \<Longrightarrow> distinct (map fst (AList.update k v al))"
  by (simp add: distinct_update)

lemma update_keys_set: "set (map fst (AList.update k v al)) = insert k (set (map fst al))"
  using dom_update [of k v al] by simp

lemma accumulatorsAgree_record:
  "accumulatorsAgree s \<Longrightarrow> accumulatorsAgree (fst (recordCopiedImage s spec))"
  by (simp add: accumulatorsAgree_def recordCopiedImage_def update_keys_distinct
      update_keys_set del: set_map)

lemma accumulatorsAgree_recordAll:
  "accumulatorsAgree s \<Longrightarrow> accumulatorsAgree (recordAll s specs)"
  by (induction specs rule: rev_induct)
     (simp_all add: recordAll_Nil recordAll_snoc accumulatorsAgree_record)

lemma rangeKeys_set: "set (rangeKeys rank m) = set (map fst m)"
  by (simp add: rangeKeys_def)

lemma rangeKeys_distinct: "distinct (map fst m) \<Longrightarrow> distinct (rangeKeys rank m)"
  by (simp add: rangeKeys_def)

section \<open>The flows: what they record\<close>

lemma listLoop_append:
  "listLoop env opts (xs @ ys) st = listLoop env opts ys (listLoop env opts xs st)"
  by (induction xs arbitrary: st) simp_all

lemma indexLoop_append:
  "indexLoop env opts (xs @ ys) st =
     (case indexLoop env opts xs st of None \<Rightarrow> None | Some st' \<Rightarrow> indexLoop env opts ys st')"
  by (induction xs arbitrary: st) (simp_all split: option.splits)

lemma inspectConfig_variant:
  assumes "inspectConfig env w i osInfo arch variant osVersion osFeatures = Inr (ov, ofs, v)"
  shows "v = variant
         \<or> variant = [] \<and> needInspectConfig osInfo arch [] osVersion osFeatures"
  using assms
  by (auto simp: inspectConfig_def simp del: needInspectConfig.simps
      split: if_splits sum.splits)

lemma inspectCopied_platform:
  assumes "inspectCopied env opts w dm dref mt p = Inr spec"
  shows "Arch spec = p_Architecture p \<and> OS spec = p_OS p
         \<and> (Variant spec = p_Variant p
              \<or> p_Variant p = []
                \<and> needInspectConfig (p_OS p) (p_Architecture p) [] (p_OSVersion p)
                     (p_OSFeatures p))"
  using assms
  by (auto simp: inspectCopied_def updateSpecDockerV2Schema2_eq
      updateSpecImageManifest_eq Let_def
      simp del: needInspectConfig.simps
      dest: inspectConfig_variant
      split: sum.splits prod.splits if_splits)

text \<open>The copy of an entry leaves the session alone or records one spec.\<close>

lemma copyEntry_source:
  "st_source (copyEntry env opts dm mt dig p st) = st_source st
   \<or> (\<exists>spec. st_source (copyEntry env opts dm mt dig p st)
               = fst (recordCopiedImage (st_source st) spec)
        \<and> Arch spec = p_Architecture p \<and> OS spec = p_OS p
        \<and> (Variant spec = p_Variant p
             \<or> p_Variant p = []
               \<and> needInspectConfig (p_OS p) (p_Architecture p) [] (p_OSVersion p)
                    (p_OSFeatures p)))"
proof (cases "\<exists>sref dref W1 spec.
    ParseImageName env (transport (st_source st) @ registry (st_source st) @ ''/''
        @ project (st_source st) @ ''/'' @ name (st_source st) @ ''@'' @ dig) = Inr sref
    \<and> ReferenceMultiArch env (p_OS p) (p_OSVersion p) (p_Architecture p) (p_Variant p)
        (Encoded env dig) = Inr dref
    \<and> copyImage env (mkCopyOptions opts (st_source st) sref dref mt) (st_world st) = (None, W1)
    \<and> inspectCopied env opts (ext W1) dm dref mt p = Inr spec")
  case True
  then obtain sref dref W1 spec where h:
    "ParseImageName env (transport (st_source st) @ registry (st_source st) @ ''/''
        @ project (st_source st) @ ''/'' @ name (st_source st) @ ''@'' @ dig) = Inr sref"
    "ReferenceMultiArch env (p_OS p) (p_OSVersion p) (p_Architecture p) (p_Variant p)
        (Encoded env dig) = Inr dref"
    "copyImage env (mkCopyOptions opts (st_source st) sref dref mt) (st_world st) = (None, W1)"
    "inspectCopied env opts (ext W1) dm dref mt p = Inr spec"
    by blast
  have "st_source (copyEntry env opts dm mt dig p st)
          = fst (recordCopiedImage (st_source st) spec)"
    using h by (simp add: copyEntry_def Let_def recordCopiedImage_def)
  with inspectCopied_platform [OF h(4)] show ?thesis by blast
next
  case False
  then have "st_source (copyEntry env opts dm mt dig p st) = st_source st"
    by (auto simp: copyEntry_def Let_def split: sum.splits prod.splits option.splits)
  then show ?thesis by simp
qed

lemma listEntry_recorded:
  "\<exists>specs. st_source (listEntry env opts dm mt dig p st) = recordAll (st_source st) specs
     \<and> (\<forall>spec\<in>set specs. recordedFrom (Set_filter opts) p spec)"
proof (cases "Allow (Set_filter opts) (p_Architecture p) (p_OS p) (p_Variant p)
    \<and> \<not> (SigstorePrivateKey opts = [] \<and> HaveDigest env (ext (st_world st)) dig)")
  case False
  then have "st_source (listEntry env opts dm mt dig p st) = recordAll (st_source st) []"
    by (auto simp: listEntry_def recordAll_Nil)
  then show ?thesis by fastforce
next
  case True
  then have eq: "listEntry env opts dm mt dig p st = copyEntry env opts dm mt dig p st"
    by (auto simp: listEntry_def)
  from copyEntry_source [of env opts dm mt dig p st] show ?thesis
  proof
    assume "st_source (copyEntry env opts dm mt dig p st) = st_source st"
    then have "st_source (listEntry env opts dm mt dig p st) = recordAll (st_source st) []"
      by (simp add: eq recordAll_Nil)
    then show ?thesis by fastforce
  next
    assume "\<exists>spec. st_source (copyEntry env opts dm mt dig p st)
               = fst (recordCopiedImage (st_source st) spec)
        \<and> Arch spec = p_Architecture p \<and> OS spec = p_OS p
        \<and> (Variant spec = p_Variant p
             \<or> p_Variant p = []
               \<and> needInspectConfig (p_OS p) (p_Architecture p) [] (p_OSVersion p)
                    (p_OSFeatures p))"
    then obtain spec where sp:
      "st_source (copyEntry env opts dm mt dig p st) = fst (recordCopiedImage (st_source st) spec)"
      "Arch spec = p_Architecture p" "OS spec = p_OS p"
      "Variant spec = p_Variant p
         \<or> p_Variant p = []
           \<and> needInspectConfig (p_OS p) (p_Architecture p) [] (p_OSVersion p) (p_OSFeatures p)"
      by blast
    have "st_source (listEntry env opts dm mt dig p st) = recordAll (st_source st) [spec]"
      using sp(1) by (simp add: eq recordAll_single)
    moreover have "recordedFrom (Set_filter opts) p spec"
      using True sp(2,3,4) by (simp add: recordedFrom_def del: needInspectConfig.simps)
    ultimately show ?thesis by fastforce
  qed
qed

lemma listLoop_recorded:
  "\<exists>specs. st_source (listLoop env opts ms st) = recordAll (st_source st) specs
     \<and> (\<forall>spec\<in>set specs. \<exists>m\<in>set ms. recordedFrom (Set_filter opts) (s2_Platform m) spec)"
proof (induction ms arbitrary: st)
  case Nil
  have "st_source (listLoop env opts [] st) = recordAll (st_source st) []"
    by (simp add: recordAll_Nil)
  then show ?case by fastforce
next
  case (Cons m ms)
  let ?st1 = "listEntry env opts ''failed to get digest: '' (s2_MediaType m) (s2_Digest m)
          (s2_Platform m) st"
  obtain xs where xs: "st_source ?st1 = recordAll (st_source st) xs"
     "\<forall>spec\<in>set xs. recordedFrom (Set_filter opts) (s2_Platform m) spec"
    using listEntry_recorded by blast
  obtain ys where ys: "st_source (listLoop env opts ms ?st1) = recordAll (st_source ?st1) ys"
     "\<forall>spec\<in>set ys. \<exists>m\<in>set ms. recordedFrom (Set_filter opts) (s2_Platform m) spec"
    using Cons.IH by blast
  have "st_source (listLoop env opts (m # ms) st) = recordAll (st_source st) (xs @ ys)"
    using xs(1) ys(1) by (simp add: recordAll_append)
  moreover have "\<forall>spec\<in>set (xs @ ys).
      \<exists>m'\<in>set (m # ms). recordedFrom (Set_filter opts) (s2_Platform m') spec"
    using xs(2) ys(2) by auto
  ultimately show ?case by blast
qed

lemma indexLoop_recorded:
  "indexLoop env opts ms st = Some st' \<Longrightarrow>
   \<exists>specs. st_source st' = recordAll (st_source st) specs
     \<and> (\<forall>spec\<in>set specs.
           \<exists>m\<in>set ms. \<exists>p. d_Platform m = Some p \<and> recordedFrom (Set_filter opts) p spec)"
proof (induction ms arbitrary: st)
  case Nil
  then have "st_source st' = recordAll (st_source st) []"
    by (simp add: recordAll_Nil)
  then show ?case by fastforce
next
  case (Cons m ms)
  from Cons.prems obtain p where p: "d_Platform m = Some p"
    by (cases "d_Platform m") simp_all
  let ?st1 = "listEntry env opts ''imagemanifest.Digest failed: '' (d_MediaType m) (d_Digest m)
          p st"
  have run: "indexLoop env opts ms ?st1 = Some st'"
    using Cons.prems p by simp
  obtain xs where xs: "st_source ?st1 = recordAll (st_source st) xs"
     "\<forall>spec\<in>set xs. recordedFrom (Set_filter opts) p spec"
    using listEntry_recorded by blast
  obtain ys where ys: "st_source st' = recordAll (st_source ?st1) ys"
     "\<forall>spec\<in>set ys.
        \<exists>m\<in>set ms. \<exists>p. d_Platform m = Some p \<and> recordedFrom (Set_filter opts) p spec"
    using Cons.IH [OF run] by blast
  have "st_source st' = recordAll (st_source st) (xs @ ys)"
    using xs(1) ys(1) by (simp add: recordAll_append)
  moreover have "\<forall>spec\<in>set (xs @ ys).
      \<exists>m'\<in>set (m # ms). \<exists>p. d_Platform m' = Some p \<and> recordedFrom (Set_filter opts) p spec"
    using xs(2) ys(2) p by auto
  ultimately show ?case by blast
qed

lemma single_recorded_cases:
  assumes "s' = s \<or> (\<exists>spec. s' = fst (recordCopiedImage s spec) \<and> P spec)"
  shows "\<exists>specs. s' = recordAll s specs \<and> (\<forall>spec\<in>set specs. P spec)"
proof -
  from assms show ?thesis
  proof
    assume "s' = s"
    then have "s' = recordAll s []" by (simp add: recordAll_Nil)
    then show ?thesis by fastforce
  next
    assume "\<exists>spec. s' = fst (recordCopiedImage s spec) \<and> P spec"
    then obtain spec where "s' = recordAll s [spec]" "P spec"
      by (auto simp: recordAll_single)
    then show ?thesis by fastforce
  qed
qed

lemma recordCopiedImage_case:
  "(case recordCopiedImage s spec of (s1, err) \<Rightarrow> f s1 err)
     = f (fst (recordCopiedImage s spec)) None"
  by (simp add: recordCopiedImage_def)

lemma recordCopiedImage_pairD:
  "recordCopiedImage s spec = (s1, err) \<Longrightarrow> s1 = fst (recordCopiedImage s spec) \<and> err = None"
  by (auto simp: recordCopiedImage_def)

lemma copyDockerV2Schema2MediaType_source:
  "fst (copyDockerV2Schema2MediaType env opts s W) = s
   \<or> (\<exists>spec. fst (copyDockerV2Schema2MediaType env opts s W) = fst (recordCopiedImage s spec)
        \<and> Allow (Set_filter opts) (Arch spec) (OS spec) (Variant spec))"
  by (auto simp: copyDockerV2Schema2MediaType_def Let_def updateSpecDockerV2Schema2_eq
      recordCopiedImage_case
      split: sum.splits prod.splits option.splits intro!: exI)

lemma copyMediaTypeImageManifest_source:
  "fst (copyMediaTypeImageManifest env opts s W) = s
   \<or> (\<exists>spec. fst (copyMediaTypeImageManifest env opts s W) = fst (recordCopiedImage s spec)
        \<and> Allow (Set_filter opts) (Arch spec) (OS spec) (Variant spec))"
  by (auto simp: copyMediaTypeImageManifest_def Let_def updateSpecImageManifest_eq
      recordCopiedImage_case
      split: sum.splits prod.splits option.splits intro!: exI)

lemma copyDockerV2Schema1MediaType_source:
  "fst (copyDockerV2Schema1MediaType env opts s W) = s
   \<or> (\<exists>spec. fst (copyDockerV2Schema1MediaType env opts s W) = fst (recordCopiedImage s spec)
        \<and> Allow (Set_filter opts) (Arch spec) (OS spec) (Variant spec))"
  by (auto simp: copyDockerV2Schema1MediaType_def Let_def updateSpecDockerV2Schema2_eq
      split: sum.splits prod.splits option.splits dest!: recordCopiedImage_pairD)


lemma fst_listOutcome: "fst (listOutcome r) = fst r"
  by (cases r) (simp add: listOutcome_def)

lemma fst_listResult: "fst (listResult opts s st) = st_source st"
  by (simp add: listResult_def)

lemma st_source_initLoop: "st_source (initLoop s W) = s"
  by (simp add: initLoop_def)

text \<open>
  Every session that \<open>Copy\<close> returns arises from recordings: of the session's own
  platform, which the filter allowed, in the single-image flows; of entries of the list
  in the list flows.
\<close>

lemma Copy_recorded:
  assumes "Copy env opts s W = Some (s', W', r)"
  shows "\<exists>specs. s' = recordAll s specs
     \<and> (\<forall>spec\<in>set specs.
           Allow (Set_filter opts) (Arch spec) (OS spec) (Variant spec)
           \<or> mime s = DockerV2ListMediaType
             \<and> (\<exists>m\<in>set (schema2List s). recordedFrom (Set_filter opts) (s2_Platform m) spec)
           \<or> mime s = MediaTypeImageIndex
             \<and> (\<exists>m\<in>set (ociIndex s). \<exists>p. d_Platform m = Some p
                   \<and> recordedFrom (Set_filter opts) p spec))"
proof -
  consider (list) "mime s = DockerV2ListMediaType"
    | (index) "mime s \<noteq> DockerV2ListMediaType" "mime s = MediaTypeImageIndex"
    | (schema2) "mime s \<noteq> DockerV2ListMediaType" "mime s \<noteq> MediaTypeImageIndex"
        "mime s = DockerV2Schema2MediaType"
    | (schema1) "mime s \<noteq> DockerV2ListMediaType" "mime s \<noteq> MediaTypeImageIndex"
        "mime s \<noteq> DockerV2Schema2MediaType"
        "mime s = DockerV2Schema1MediaType \<or> mime s = DockerV2Schema1SignedMediaType"
    | (oci) "mime s \<noteq> DockerV2ListMediaType" "mime s \<noteq> MediaTypeImageIndex"
        "mime s \<noteq> DockerV2Schema2MediaType"
        "\<not> (mime s = DockerV2Schema1MediaType \<or> mime s = DockerV2Schema1SignedMediaType)"
        "mime s = MediaTypeImageManifest"
    | (other) "mime s \<noteq> DockerV2ListMediaType" "mime s \<noteq> MediaTypeImageIndex"
        "mime s \<noteq> DockerV2Schema2MediaType"
        "\<not> (mime s = DockerV2Schema1MediaType \<or> mime s = DockerV2Schema1SignedMediaType)"
        "mime s \<noteq> MediaTypeImageManifest"
    by blast
  then show ?thesis
  proof cases
    case list
    then have "s' = st_source (listLoop env opts (schema2List s) (initLoop s W))"
      using assms
      by (auto simp: Copy_def copyDockerV2ListMediaType_def
          dest!: arg_cong [where f = fst] simp: fst_listOutcome fst_listResult)
    with listLoop_recorded [of env opts "schema2List s" "initLoop s W"] list
    show ?thesis by (auto simp: st_source_initLoop)
  next
    case index
    then obtain st where st: "indexLoop env opts (ociIndex s) (initLoop s W) = Some st"
      and "listOutcome (listResult opts s st) = (s', W', r)"
      using assms by (auto simp: Copy_def copyMediaTypeImageIndex_def)
    then have "s' = st_source st"
      by (auto dest!: arg_cong [where f = fst] simp: fst_listOutcome fst_listResult)
    with indexLoop_recorded [OF st] index show ?thesis
      by (auto simp: st_source_initLoop)
  next
    case schema2
    then have "s' = fst (copyDockerV2Schema2MediaType env opts s W)"
      using assms by (auto simp: Copy_def)
    with single_recorded_cases [OF copyDockerV2Schema2MediaType_source [of env opts s W]]
    show ?thesis by blast
  next
    case schema1
    then have "s' = fst (copyDockerV2Schema1MediaType env opts s W)"
      using assms by (auto simp: Copy_def)
    with single_recorded_cases [OF copyDockerV2Schema1MediaType_source [of env opts s W]]
    show ?thesis by blast
  next
    case oci
    then have "s' = fst (copyMediaTypeImageManifest env opts s W)"
      using assms by (auto simp: Copy_def)
    with single_recorded_cases [OF copyMediaTypeImageManifest_source [of env opts s W]]
    show ?thesis by blast
  next
    case other
    then have "s' = recordAll s []"
      using assms by (auto simp: Copy_def recordAll_Nil)
    then show ?thesis by fastforce
  qed
qed

section \<open>The concrete session, evaluated\<close>

lemmas ex_defs =
  exEnv_def exWorld_def exOpts_def exOptsNoVariant_def exOptsArm_def exSource_def exEntry_def
  exIndexEntry_def exSchema2_def exManifest_def exSpecArm_def exSpecArm64_def

lemmas flow_defs =
  Copy_def listOutcome_def copyDockerV2ListMediaType_def copyMediaTypeImageIndex_def
  listResult_def initLoop_def listEntry_def copyEntry_def inspectCopied_def inspectConfig_def
  copyImage_def runCopier_def mkCopyOptions_def recordCopiedImage_def Allow_def
  updateSpecDockerV2Schema2_eq updateSpecImageManifest_eq Let_def

lemma exRun_noVariant:
  "Copy exEnv exOptsNoVariant exSource exWorld =
     Some (fst (recordCopiedImage exSource exSpecArm),
           \<lparr>ext = 1,
            copies = [\<lparr>co_Options =
                         \<lparr>v5_RemoveSignatures = False, v5_SignBySigstorePrivateKeyFile = '''',
                          v5_SignSigstorePrivateKeyPassphrase = '''', v5_SourceCtx = ''sctx'',
                          v5_DestinationCtx = ''dctx'', v5_PreserveDigests = True,
                          v5_MaxParallelDownloads = 3, v5_ForceManifestMIMEType = ''''\<rparr>,
                       co_MaxRetry = 3, co_Delay_ms = 100,
                       co_SourceRef = ''docker://r/p/n@sha256:ab'', co_DestRef = ''/out/ab'',
                       co_Policy = ''policy''\<rparr>],
            renames = []\<rparr>,
           None)"
  by (simp add: ex_defs flow_defs mime_defs)


lemma exRun_all:
  "Copy exEnv exOpts exSource exWorld =
     Some (recordAll exSource [exSpecArm64, exSpecArm],
           \<lparr>ext = 2,
            copies = [\<lparr>co_Options =
                         \<lparr>v5_RemoveSignatures = False, v5_SignBySigstorePrivateKeyFile = '''',
                          v5_SignSigstorePrivateKeyPassphrase = '''', v5_SourceCtx = ''sctx'',
                          v5_DestinationCtx = ''dctx'', v5_PreserveDigests = True,
                          v5_MaxParallelDownloads = 3, v5_ForceManifestMIMEType = ''''\<rparr>,
                       co_MaxRetry = 3, co_Delay_ms = 100,
                       co_SourceRef = ''docker://r/p/n@sha256:bb'', co_DestRef = ''/out/bb'',
                       co_Policy = ''policy''\<rparr>,
                      \<lparr>co_Options =
                         \<lparr>v5_RemoveSignatures = False, v5_SignBySigstorePrivateKeyFile = '''',
                          v5_SignSigstorePrivateKeyPassphrase = '''', v5_SourceCtx = ''sctx'',
                          v5_DestinationCtx = ''dctx'', v5_PreserveDigests = True,
                          v5_MaxParallelDownloads = 3, v5_ForceManifestMIMEType = ''''\<rparr>,
                       co_MaxRetry = 3, co_Delay_ms = 100,
                       co_SourceRef = ''docker://r/p/n@sha256:ab'', co_DestRef = ''/out/ab'',
                       co_Policy = ''policy''\<rparr>],
            renames = []\<rparr>,
           None)"
  by (simp add: ex_defs flow_defs mime_defs recordAll_def)

section \<open>The filter and the recorded specs\<close>

text \<open>
  Claim C8, as stated, fails: the filter is asked about the entry's variant, and the
  recorded variant may come from the image config. With a filter that asks for images
  without a variant, the \<open>arm\<close> entry (no variant in the list) passes, its copy is
  recorded with the config's variant \<open>v7\<close>, and the filter refuses the recorded tuple.
\<close>

theorem recorded_spec_refused_counterexample:
  "copiedList (fst (the (Copy exEnv exOptsNoVariant exSource exWorld))) = [exSpecArm]
   \<and> \<not> Allow (Set_filter exOptsNoVariant) (Arch exSpecArm) (OS exSpecArm) (Variant exSpecArm)"
  by (simp add: exRun_noVariant)
     (simp add: recordCopiedImage_def ex_defs Allow_def)

lemma recordedFrom_cases:
  assumes "recordedFrom fs p spec"
  shows "Allow fs (Arch spec) (OS spec) (Variant spec)
     \<or> p_Variant p = '''' \<and> needInspectConfig (p_OS p) (p_Architecture p) '''' (p_OSVersion p)
                              (p_OSFeatures p)
       \<and> Arch spec = p_Architecture p \<and> OS spec = p_OS p
       \<and> Allow fs (Arch spec) (OS spec) ''''"
  using assms by (auto simp: recordedFrom_def simp del: needInspectConfig.simps)

lemma recordedFrom_allowed:
  assumes "recordedFrom fs p spec" and "'''' \<notin> fs_variant fs"
  shows "Allow fs (Arch spec) (OS spec) (Variant spec)"
  using assms by (auto simp: recordedFrom_def Allow_def simp del: needInspectConfig.simps)

text \<open>
  Claim C8, amended. Every spec that \<open>Copy\<close> appends to \<open>copiedList\<close> is allowed
  by the filter with its recorded variant, or is the copy, in one of the two list
  flows, of an entry of the list that has no variant and whose config was to be
  inspected (\<open>needInspectConfig\<close>), has the recorded architecture and system, and is
  allowed by the filter with the empty variant: the filter was asked before the variant
  was filled in from the image config. So in the single-image flows the filter allows
  the recorded tuple, and in every flow it does when the filter's set of variants does
  not hold the empty string.
\<close>

theorem recorded_specs_allowed:
  assumes "Copy env opts s W = Some (s', W', r)"
  shows "\<exists>specs. copiedList s' = copiedList s @ specs
     \<and> (\<forall>spec\<in>set specs.
           Allow (Set_filter opts) (Arch spec) (OS spec) (Variant spec)
           \<or> mime s = DockerV2ListMediaType
             \<and> (\<exists>m\<in>set (schema2List s).
                   p_Variant (s2_Platform m) = ''''
                   \<and> needInspectConfig (p_OS (s2_Platform m)) (p_Architecture (s2_Platform m))
                        '''' (p_OSVersion (s2_Platform m)) (p_OSFeatures (s2_Platform m))
                   \<and> Arch spec = p_Architecture (s2_Platform m)
                   \<and> OS spec = p_OS (s2_Platform m)
                   \<and> Allow (Set_filter opts) (Arch spec) (OS spec) '''')
           \<or> mime s = MediaTypeImageIndex
             \<and> (\<exists>m\<in>set (ociIndex s). \<exists>p.
                   d_Platform m = Some p
                   \<and> p_Variant p = ''''
                   \<and> needInspectConfig (p_OS p) (p_Architecture p) '''' (p_OSVersion p)
                        (p_OSFeatures p)
                   \<and> Arch spec = p_Architecture p \<and> OS spec = p_OS p
                   \<and> Allow (Set_filter opts) (Arch spec) (OS spec) ''''))
     \<and> ('''' \<notin> fs_variant (Set_filter opts) \<longrightarrow>
          (\<forall>spec\<in>set specs. Allow (Set_filter opts) (Arch spec) (OS spec) (Variant spec)))"
proof -
  from Copy_recorded [OF assms] obtain specs where sp:
    "s' = recordAll s specs"
    "\<forall>spec\<in>set specs.
           Allow (Set_filter opts) (Arch spec) (OS spec) (Variant spec)
           \<or> mime s = DockerV2ListMediaType
             \<and> (\<exists>m\<in>set (schema2List s). recordedFrom (Set_filter opts) (s2_Platform m) spec)
           \<or> mime s = MediaTypeImageIndex
             \<and> (\<exists>m\<in>set (ociIndex s). \<exists>p. d_Platform m = Some p
                   \<and> recordedFrom (Set_filter opts) p spec)"
    by blast
  have l: "copiedList s' = copiedList s @ specs"
    using sp(1) by (simp add: copiedList_recordAll)
  have a: "\<forall>spec\<in>set specs.
           Allow (Set_filter opts) (Arch spec) (OS spec) (Variant spec)
           \<or> mime s = DockerV2ListMediaType
             \<and> (\<exists>m\<in>set (schema2List s).
                   p_Variant (s2_Platform m) = ''''
                   \<and> needInspectConfig (p_OS (s2_Platform m)) (p_Architecture (s2_Platform m))
                        '''' (p_OSVersion (s2_Platform m)) (p_OSFeatures (s2_Platform m))
                   \<and> Arch spec = p_Architecture (s2_Platform m)
                   \<and> OS spec = p_OS (s2_Platform m)
                   \<and> Allow (Set_filter opts) (Arch spec) (OS spec) '''')
           \<or> mime s = MediaTypeImageIndex
             \<and> (\<exists>m\<in>set (ociIndex s). \<exists>p.
                   d_Platform m = Some p
                   \<and> p_Variant p = ''''
                   \<and> needInspectConfig (p_OS p) (p_Architecture p) '''' (p_OSVersion p)
                        (p_OSFeatures p)
                   \<and> Arch spec = p_Architecture p \<and> OS spec = p_OS p
                   \<and> Allow (Set_filter opts) (Arch spec) (OS spec) '''')"
  proof
    fix spec assume "spec \<in> set specs"
    with sp(2) consider
        (direct) "Allow (Set_filter opts) (Arch spec) (OS spec) (Variant spec)"
      | (list) m where "mime s = DockerV2ListMediaType" "m \<in> set (schema2List s)"
          "recordedFrom (Set_filter opts) (s2_Platform m) spec"
      | (index) m p where "mime s = MediaTypeImageIndex" "m \<in> set (ociIndex s)"
          "d_Platform m = Some p" "recordedFrom (Set_filter opts) p spec"
      by blast
    then show "Allow (Set_filter opts) (Arch spec) (OS spec) (Variant spec)
           \<or> mime s = DockerV2ListMediaType
             \<and> (\<exists>m\<in>set (schema2List s).
                   p_Variant (s2_Platform m) = ''''
                   \<and> needInspectConfig (p_OS (s2_Platform m)) (p_Architecture (s2_Platform m))
                        '''' (p_OSVersion (s2_Platform m)) (p_OSFeatures (s2_Platform m))
                   \<and> Arch spec = p_Architecture (s2_Platform m)
                   \<and> OS spec = p_OS (s2_Platform m)
                   \<and> Allow (Set_filter opts) (Arch spec) (OS spec) '''')
           \<or> mime s = MediaTypeImageIndex
             \<and> (\<exists>m\<in>set (ociIndex s). \<exists>p.
                   d_Platform m = Some p
                   \<and> p_Variant p = ''''
                   \<and> needInspectConfig (p_OS p) (p_Architecture p) '''' (p_OSVersion p)
                        (p_OSFeatures p)
                   \<and> Arch spec = p_Architecture p \<and> OS spec = p_OS p
                   \<and> Allow (Set_filter opts) (Arch spec) (OS spec) '''')"
    proof cases
      case direct
      then show ?thesis by blast
    next
      case list
      from recordedFrom_cases [OF list(3)] list(1,2) show ?thesis by blast
    next
      case index
      from recordedFrom_cases [OF index(4)] index(1,2,3) show ?thesis by blast
    qed
  qed
  have b: "'''' \<notin> fs_variant (Set_filter opts) \<longrightarrow>
          (\<forall>spec\<in>set specs. Allow (Set_filter opts) (Arch spec) (OS spec) (Variant spec))"
    using sp(2) recordedFrom_allowed by blast
  from l a b show ?thesis by blast
qed

theorem recorded_specs_allowed_witness:
  "Copy exEnv exOptsNoVariant exSource exWorld \<noteq> None
   \<and> copiedList (fst (the (Copy exEnv exOptsNoVariant exSource exWorld))) = [exSpecArm]
   \<and> \<not> Allow (Set_filter exOptsNoVariant) (Arch exSpecArm) (OS exSpecArm) (Variant exSpecArm)
   \<and> Allow (Set_filter exOptsNoVariant) (Arch exSpecArm) (OS exSpecArm) ''''
   \<and> '''' \<notin> fs_variant (Set_filter exOpts)
   \<and> copiedList (fst (the (Copy exEnv exOpts exSource exWorld))) = [exSpecArm64, exSpecArm]
   \<and> Allow (Set_filter exOpts) (Arch exSpecArm64) (OS exSpecArm64) (Variant exSpecArm64)
   \<and> Allow (Set_filter exOpts) (Arch exSpecArm) (OS exSpecArm) (Variant exSpecArm)"
proof -
  let ?s' = "fst (recordCopiedImage exSource exSpecArm)"
  have l: "copiedList ?s' = [exSpecArm]"
    by (simp add: recordCopiedImage_def exSource_def)
  have no: "\<not> Allow (Set_filter exOptsNoVariant) (Arch exSpecArm) (OS exSpecArm) (Variant exSpecArm)"
    by (simp add: ex_defs Allow_def)
  from recorded_specs_allowed [OF exRun_noVariant]
  obtain specs where sp: "copiedList ?s' = copiedList exSource @ specs"
    "\<forall>spec\<in>set specs.
           Allow (Set_filter exOptsNoVariant) (Arch spec) (OS spec) (Variant spec)
           \<or> mime exSource = DockerV2ListMediaType
             \<and> (\<exists>m\<in>set (schema2List exSource).
                   p_Variant (s2_Platform m) = ''''
                   \<and> needInspectConfig (p_OS (s2_Platform m)) (p_Architecture (s2_Platform m))
                        '''' (p_OSVersion (s2_Platform m)) (p_OSFeatures (s2_Platform m))
                   \<and> Arch spec = p_Architecture (s2_Platform m)
                   \<and> OS spec = p_OS (s2_Platform m)
                   \<and> Allow (Set_filter exOptsNoVariant) (Arch spec) (OS spec) '''')
           \<or> mime exSource = MediaTypeImageIndex
             \<and> (\<exists>m\<in>set (ociIndex exSource). \<exists>p.
                   d_Platform m = Some p
                   \<and> p_Variant p = ''''
                   \<and> needInspectConfig (p_OS p) (p_Architecture p) '''' (p_OSVersion p)
                        (p_OSFeatures p)
                   \<and> Arch spec = p_Architecture p \<and> OS spec = p_OS p
                   \<and> Allow (Set_filter exOptsNoVariant) (Arch spec) (OS spec) '''')"
    by blast
  from sp(1) l have "specs = [exSpecArm]"
    by (simp add: exSource_def)
  with sp(2) no have empty: "Allow (Set_filter exOptsNoVariant) (Arch exSpecArm) (OS exSpecArm) ''''"
    by auto
  have wild: "'''' \<notin> fs_variant (Set_filter exOpts)"
    by (simp add: exOpts_def)
  let ?t' = "recordAll exSource [exSpecArm64, exSpecArm]"
  have l2: "copiedList ?t' = [exSpecArm64, exSpecArm]"
    by (simp add: copiedList_recordAll exSource_def)
  from recorded_specs_allowed [OF exRun_all]
  obtain specs2 where sp2: "copiedList ?t' = copiedList exSource @ specs2"
    "'''' \<notin> fs_variant (Set_filter exOpts) \<longrightarrow>
       (\<forall>spec\<in>set specs2. Allow (Set_filter exOpts) (Arch spec) (OS spec) (Variant spec))"
    by blast
  from sp2(1) l2 have "specs2 = [exSpecArm64, exSpecArm]"
    by (simp add: exSource_def)
  with sp2(2) wild have all:
    "Allow (Set_filter exOpts) (Arch exSpecArm64) (OS exSpecArm64) (Variant exSpecArm64)"
    "Allow (Set_filter exOpts) (Arch exSpecArm) (OS exSpecArm) (Variant exSpecArm)"
    by auto
  from l l2 no empty wild all show ?thesis
    by (simp add: exRun_noVariant exRun_all)
qed

section \<open>The final record\<close>

text \<open>
  Claim C9, as stated, fails: the lists are not sorted. The session that copies the
  \<open>arm64\<close> and then the \<open>arm\<close> entry reports the architectures in the order of the
  map iteration, here \<open>arm64\<close> before \<open>arm\<close>.
\<close>

theorem ArchList_unsorted_counterexample:
  "ArchList (GetCopiedImage (rangeRank exEnv) (fst (the (Copy exEnv exOpts exSource exWorld))))
     = [''arm64'', ''arm'']
   \<and> \<not> sorted (ArchList (GetCopiedImage (rangeRank exEnv)
                   (fst (the (Copy exEnv exOpts exSource exWorld)))))"
  by (simp add: exRun_all)
     (simp add: GetCopiedImage_def rangeKeys_def recordAll_def recordCopiedImage_def ex_defs)

lemma accumulatorsAgree_new:
  "copiedList s = [] \<Longrightarrow> copiedArch s = [] \<Longrightarrow> copiedOS s = [] \<Longrightarrow> accumulatorsAgree s"
  by (simp add: accumulatorsAgree_def)

text \<open>
  Claim C9, amended. For a session whose accumulators agree (as they do in a session
  with nothing recorded yet, and as \<open>Copy\<close> keeps them), \<open>GetCopiedImage\<close> returns
  \<open>copiedList\<close> as \<open>Images\<close>, and \<open>ArchList\<close> and \<open>OsList\<close> hold, without
  duplicates and in the order of the map iteration (no sorting), exactly the \<open>Arch\<close>
  and \<open>OS\<close> values of the specs in \<open>copiedList\<close>.
\<close>

theorem GetCopiedImage_lists:
  assumes "accumulatorsAgree s"
  shows "Images (GetCopiedImage rank s) = copiedList s
     \<and> distinct (ArchList (GetCopiedImage rank s))
     \<and> set (ArchList (GetCopiedImage rank s)) = set (map Arch (copiedList s))
     \<and> distinct (OsList (GetCopiedImage rank s))
     \<and> set (OsList (GetCopiedImage rank s)) = set (map OS (copiedList s))
     \<and> (Copy env opts s W = Some (s', W', r) \<longrightarrow> accumulatorsAgree s')"
proof -
  have keep: "Copy env opts s W = Some (s', W', r) \<longrightarrow> accumulatorsAgree s'"
  proof
    assume "Copy env opts s W = Some (s', W', r)"
    from Copy_recorded [OF this] obtain specs where "s' = recordAll s specs"
      by blast
    with assms show "accumulatorsAgree s'"
      by (simp add: accumulatorsAgree_recordAll)
  qed
  from assms have "Images (GetCopiedImage rank s) = copiedList s
     \<and> distinct (ArchList (GetCopiedImage rank s))
     \<and> set (ArchList (GetCopiedImage rank s)) = set (map Arch (copiedList s))
     \<and> distinct (OsList (GetCopiedImage rank s))
     \<and> set (OsList (GetCopiedImage rank s)) = set (map OS (copiedList s))"
    by (simp add: GetCopiedImage_def rangeKeys_set rangeKeys_distinct accumulatorsAgree_def
        del: set_map)
  with keep show ?thesis by blast
qed

theorem GetCopiedImage_lists_witness:
  "accumulatorsAgree exSource
   \<and> Copy exEnv exOpts exSource exWorld \<noteq> None
   \<and> set (ArchList (GetCopiedImage (rangeRank exEnv)
             (fst (the (Copy exEnv exOpts exSource exWorld))))) = {''arm64'', ''arm''}
   \<and> set (OsList (GetCopiedImage (rangeRank exEnv)
             (fst (the (Copy exEnv exOpts exSource exWorld))))) = {''linux''}
   \<and> distinct (ArchList (GetCopiedImage (rangeRank exEnv)
             (fst (the (Copy exEnv exOpts exSource exWorld)))))"
proof -
  let ?s' = "recordAll exSource [exSpecArm64, exSpecArm]"
  have new: "accumulatorsAgree exSource"
    by (rule accumulatorsAgree_new) (simp_all add: exSource_def)
  have agree: "accumulatorsAgree ?s'"
    using GetCopiedImage_lists [OF new, of "rangeRank exEnv" exEnv exOpts exWorld ?s'] exRun_all
    by blast
  have l: "copiedList ?s' = [exSpecArm64, exSpecArm]"
    by (simp add: copiedList_recordAll exSource_def)
  have t: "set (ArchList (GetCopiedImage (rangeRank exEnv) ?s')) = set (map Arch (copiedList ?s'))"
    "set (OsList (GetCopiedImage (rangeRank exEnv) ?s')) = set (map OS (copiedList ?s'))"
    "distinct (ArchList (GetCopiedImage (rangeRank exEnv) ?s'))"
    using GetCopiedImage_lists [OF agree, of "rangeRank exEnv"]
    by blast+
  have a: "set (map Arch [exSpecArm64, exSpecArm]) = {''arm64'', ''arm''}"
    "set (map OS [exSpecArm64, exSpecArm]) = {''linux''}"
    by (simp_all add: exSpecArm_def exSpecArm64_def)
  show ?thesis
    using t a unfolding l
    by (simp add: exRun_all new)
qed

section \<open>The dispatcher on lists\<close>

text \<open>The body appends the entry's error to \<open>errs\<close> and counts the copied entry.\<close>

lemma listEntry_errs:
  "errs (listEntry env opts dm mt dig p st) =
     errs st @ (case entryError env opts dm mt dig p st of None \<Rightarrow> [] | Some e \<Rightarrow> [e])"
  by (simp add: listEntry_def copyEntry_def entryError_def Let_def recordCopiedImage_def
      split: sum.splits prod.splits option.splits)

lemma listEntry_copiedNum:
  "copiedNum (listEntry env opts dm mt dig p st) =
     copiedNum st + (if entryCopied env opts dm mt dig p st then 1 else 0)"
  by (simp add: listEntry_def copyEntry_def entryCopied_def entryError_def Let_def
      recordCopiedImage_def
      split: sum.splits prod.splits option.splits)

lemma listLoop_errs:
  "errs (listLoop env opts ms st) = errs st @ listErrors env opts ms st"
  by (induction ms arbitrary: st) (simp_all add: listEntry_errs)

lemma listLoop_copiedNum:
  "copiedNum (listLoop env opts ms st) = copiedNum st + listCopied env opts ms st"
  by (induction ms arbitrary: st) (simp_all add: listEntry_copiedNum)

lemma indexLoop_errs:
  "indexLoop env opts ms st = Some st' \<Longrightarrow> errs st' = errs st @ indexErrors env opts ms st"
  by (induction ms arbitrary: st) (auto simp: listEntry_errs split: option.splits)

lemma indexLoop_copiedNum:
  "indexLoop env opts ms st = Some st' \<Longrightarrow>
     copiedNum st' = copiedNum st + indexCopied env opts ms st"
  by (induction ms arbitrary: st) (auto simp: listEntry_copiedNum split: option.splits)

text \<open>An entry that the filter allows is copied or leaves an error; no other does.\<close>

lemma entryError_not_allowed:
  "\<not> Allow (Set_filter opts) (p_Architecture p) (p_OS p) (p_Variant p) \<Longrightarrow>
     entryError env opts dm mt dig p st = None"
  by (simp add: entryError_def)

lemma list_nothing_iff:
  "listCopied env opts ms st = 0 \<and> listErrors env opts ms st = [] \<longleftrightarrow>
     (\<forall>m\<in>set ms. \<not> Allow (Set_filter opts) (p_Architecture (s2_Platform m))
                     (p_OS (s2_Platform m)) (p_Variant (s2_Platform m)))"
  by (induction ms arbitrary: st)
     (auto simp: entryCopied_def entryError_not_allowed split: option.splits)

lemma index_nothing_iff:
  "indexLoop env opts ms st = Some st' \<Longrightarrow>
     (indexCopied env opts ms st = 0 \<and> indexErrors env opts ms st = [] \<longleftrightarrow>
       (\<forall>m\<in>set ms. \<forall>p. d_Platform m = Some p \<longrightarrow>
          \<not> Allow (Set_filter opts) (p_Architecture p) (p_OS p) (p_Variant p)))"
  by (induction ms arbitrary: st)
     (auto simp: entryCopied_def entryError_not_allowed split: option.splits)

lemma listErrors_append:
  "listErrors env opts (xs @ ys) st =
     listErrors env opts xs st @ listErrors env opts ys (listLoop env opts xs st)"
  by (induction xs arbitrary: st) simp_all

lemma indexErrors_append:
  "indexLoop env opts xs st = Some st1 \<Longrightarrow>
     indexErrors env opts (xs @ ys) st = indexErrors env opts xs st @ indexErrors env opts ys st1"
  by (induction xs arbitrary: st) (auto split: option.splits)

lemma listErrors_member:
  assumes "entryError env opts ''failed to get digest: '' (s2_MediaType m) (s2_Digest m)
             (s2_Platform m) (listLoop env opts pre st) = Some e"
  shows "e \<in> set (listErrors env opts (pre @ m # post) st)"
  using assms by (simp add: listErrors_append)

lemma indexErrors_member:
  assumes "indexLoop env opts pre st = Some st1" and "d_Platform m = Some p"
    and "entryError env opts ''imagemanifest.Digest failed: '' (d_MediaType m) (d_Digest m)
             p st1 = Some e"
  shows "e \<in> set (indexErrors env opts (pre @ m # post) st)"
  using assms by (simp add: indexErrors_append)

lemmas exErr_defs = exSourceErr_def exWorldErr_def exCompositeErr_def

lemma exLoop_err:
  "listLoop exEnv exOpts (schema2List exSourceErr) (initLoop exSourceErr exWorld) =
     \<lparr>st_source = exSourceErr, st_world = exWorldErr, copiedNum = 1,
      errs = [Opaque ''transport'']\<rparr>"
  by (simp add: exErr_defs ex_defs flow_defs mime_defs)

lemma exLoop_err_arm:
  "listLoop exEnv exOptsArm (schema2List exSourceErr) (initLoop exSourceErr exWorld) =
     \<lparr>st_source = exSourceErr, st_world = exWorldErr, copiedNum = 0,
      errs = [Opaque ''transport'']\<rparr>"
  by (simp add: exErr_defs ex_defs flow_defs mime_defs)

text \<open>
  Claim C1, as stated, fails in its last part: the error that \<open>Copy\<close> returns does
  not report the count. The same list, copied once with every platform allowed (one
  variant counted, one failed) and once with only \<open>arm\<close> allowed (none counted, one
  failed), makes the list flow return the counts 1 and 0, and \<open>Copy\<close> return the same
  error both times.
\<close>

theorem Copy_error_without_count_counterexample:
  "copyDockerV2ListMediaType exEnv exOpts exSourceErr exWorld
     = (exSourceErr, exWorldErr, 1, Some exCompositeErr)
   \<and> copyDockerV2ListMediaType exEnv exOptsArm exSourceErr exWorld
     = (exSourceErr, exWorldErr, 0, Some exCompositeErr)
   \<and> Copy exEnv exOpts exSourceErr exWorld = Some (exSourceErr, exWorldErr, Some exCompositeErr)
   \<and> Copy exEnv exOptsArm exSourceErr exWorld = Some (exSourceErr, exWorldErr, Some exCompositeErr)"
proof -
  have m: "mime exSourceErr = DockerV2ListMediaType"
    by (simp add: exSourceErr_def exSource_def)
  have n: "referenceName exSourceErr = ''r/p/n:1''"
    "ReferenceName (Destination exOpts) = ''oci:/out''"
    "ReferenceName (Destination exOptsArm) = ''oci:/out''"
    by (simp_all add: exSourceErr_def exSource_def exOpts_def exOptsArm_def)
  show ?thesis
    by (simp add: Copy_def m listOutcome_def copyDockerV2ListMediaType_def exLoop_err
        exLoop_err_arm listResult_def n exCompositeErr_def)
qed

text \<open>
  Claim C1, amended. Take a docker v2 list, or an OCI index each of whose entries has a
  platform (on an entry without one the index flow panics and \<open>Copy\<close> returns
  nothing). The per-entry error of an entry is the error of the first step of its copy
  that fails; an entry is copied when the filter allows it and it has no error. Then
  the loop ends with \<open>errs\<close> the per-entry errors of the entries, in their order, and
  \<open>copiedNum\<close> the number of copied entries. \<open>Copy\<close> returns \<open>ErrNoAvailableImage\<close>
  exactly when that number is zero and there is no per-entry error, which is exactly
  when the filter allows no entry. When there is a per-entry error, \<open>Copy\<close> returns one
  composite error, which joins all the per-entry errors and names the source and the
  destination. The count is returned by the list flow, beside the error; it is not
  part of the error, and \<open>Copy\<close> does not return it.
\<close>

theorem Copy_list_errors:
  assumes "mime s = DockerV2ListMediaType
             \<and> listLoop env opts (schema2List s) (initLoop s W) = st
             \<and> listErrors env opts (schema2List s) (initLoop s W) = es
             \<and> listCopied env opts (schema2List s) (initLoop s W) = n
           \<or> mime s = MediaTypeImageIndex
             \<and> indexLoop env opts (ociIndex s) (initLoop s W) = Some st
             \<and> indexErrors env opts (ociIndex s) (initLoop s W) = es
             \<and> indexCopied env opts (ociIndex s) (initLoop s W) = n"
  shows "\<exists>r. Copy env opts s W = Some (st_source st, st_world st, r)
     \<and> errs st = es \<and> copiedNum st = n
     \<and> (r = Some ErrNoAvailableImage \<longleftrightarrow> n = 0 \<and> es = [])
     \<and> (es \<noteq> [] \<longrightarrow>
          r = Some (Errorf (''error occurred when copy image ['' @ referenceName s
                              @ ''] => ['' @ ReferenceName (Destination opts) @ '']: '')
                      (Join es)))
     \<and> (mime s = DockerV2ListMediaType \<longrightarrow>
          copyDockerV2ListMediaType env opts s W
            = (st_source st, st_world st, n, if es = [] then None else r)
          \<and> (r = Some ErrNoAvailableImage \<longleftrightarrow>
               (\<forall>m\<in>set (schema2List s).
                  \<not> Allow (Set_filter opts) (p_Architecture (s2_Platform m))
                      (p_OS (s2_Platform m)) (p_Variant (s2_Platform m))))
          \<and> (\<forall>pre m post e.
               schema2List s = pre @ m # post
               \<and> entryError env opts ''failed to get digest: '' (s2_MediaType m) (s2_Digest m)
                    (s2_Platform m) (listLoop env opts pre (initLoop s W)) = Some e
               \<longrightarrow> e \<in> set es))
     \<and> (mime s = MediaTypeImageIndex \<longrightarrow>
          copyMediaTypeImageIndex env opts s W
            = Some (st_source st, st_world st, n, if es = [] then None else r)
          \<and> (r = Some ErrNoAvailableImage \<longleftrightarrow>
               (\<forall>m\<in>set (ociIndex s). \<forall>p. d_Platform m = Some p \<longrightarrow>
                  \<not> Allow (Set_filter opts) (p_Architecture p) (p_OS p) (p_Variant p)))
          \<and> (\<forall>pre m post p st1 e.
               ociIndex s = pre @ m # post
               \<and> indexLoop env opts pre (initLoop s W) = Some st1
               \<and> d_Platform m = Some p
               \<and> entryError env opts ''imagemanifest.Digest failed: '' (d_MediaType m)
                    (d_Digest m) p st1 = Some e
               \<longrightarrow> e \<in> set es))"
proof -
  have ne: "MediaTypeImageIndex \<noteq> DockerV2ListMediaType"
    by (simp add: mime_defs)
  have init: "errs (initLoop s W) = []" "copiedNum (initLoop s W) = 0"
    by (simp_all add: initLoop_def)
  from assms show ?thesis
  proof
    assume a: "mime s = DockerV2ListMediaType
             \<and> listLoop env opts (schema2List s) (initLoop s W) = st
             \<and> listErrors env opts (schema2List s) (initLoop s W) = es
             \<and> listCopied env opts (schema2List s) (initLoop s W) = n"
    then have e: "errs st = es" and c: "copiedNum st = n"
      using listLoop_errs [of env opts "schema2List s" "initLoop s W"]
        listLoop_copiedNum [of env opts "schema2List s" "initLoop s W"] init
      by simp_all
    have none: "n = 0 \<and> es = [] \<longleftrightarrow>
        (\<forall>m\<in>set (schema2List s).
            \<not> Allow (Set_filter opts) (p_Architecture (s2_Platform m))
                (p_OS (s2_Platform m)) (p_Variant (s2_Platform m)))"
      using a list_nothing_iff [of env opts "schema2List s" "initLoop s W"] by simp
    have mem: "\<forall>pre m post e.
               schema2List s = pre @ m # post
               \<and> entryError env opts ''failed to get digest: '' (s2_MediaType m) (s2_Digest m)
                    (s2_Platform m) (listLoop env opts pre (initLoop s W)) = Some e
               \<longrightarrow> e \<in> set es"
      using a listErrors_member [where env = env and opts = opts and st = "initLoop s W"]
      by metis
    let ?r = "if es \<noteq> [] then
        Some (Errorf (''error occurred when copy image ['' @ referenceName s
                              @ ''] => ['' @ ReferenceName (Destination opts) @ '']: '')
                      (Join es))
      else if n = 0 then Some ErrNoAvailableImage else None"
    have run: "Copy env opts s W = Some (st_source st, st_world st, ?r)"
      and flow: "copyDockerV2ListMediaType env opts s W
            = (st_source st, st_world st, n, if es = [] then None else ?r)"
      using a e c
      by (auto simp: Copy_def listOutcome_def copyDockerV2ListMediaType_def listResult_def)
    have iff: "?r = Some ErrNoAvailableImage \<longleftrightarrow> n = 0 \<and> es = []"
      by auto
    show ?thesis
      apply (rule exI [where x = ?r])
      using a ne run flow e c iff none mem
      by simp
  next
    assume a: "mime s = MediaTypeImageIndex
             \<and> indexLoop env opts (ociIndex s) (initLoop s W) = Some st
             \<and> indexErrors env opts (ociIndex s) (initLoop s W) = es
             \<and> indexCopied env opts (ociIndex s) (initLoop s W) = n"
    then have run0: "indexLoop env opts (ociIndex s) (initLoop s W) = Some st"
      by simp
    have e: "errs st = es" and c: "copiedNum st = n"
      using a indexLoop_errs [OF run0] indexLoop_copiedNum [OF run0] init
      by simp_all
    have none: "n = 0 \<and> es = [] \<longleftrightarrow>
        (\<forall>m\<in>set (ociIndex s). \<forall>p. d_Platform m = Some p \<longrightarrow>
            \<not> Allow (Set_filter opts) (p_Architecture p) (p_OS p) (p_Variant p))"
      using a index_nothing_iff [OF run0] by simp
    have mem: "\<forall>pre m post p st1 e.
               ociIndex s = pre @ m # post
               \<and> indexLoop env opts pre (initLoop s W) = Some st1
               \<and> d_Platform m = Some p
               \<and> entryError env opts ''imagemanifest.Digest failed: '' (d_MediaType m)
                    (d_Digest m) p st1 = Some e
               \<longrightarrow> e \<in> set es"
      using a indexErrors_member [where env = env and opts = opts and st = "initLoop s W"]
      by metis
    let ?r = "if es \<noteq> [] then
        Some (Errorf (''error occurred when copy image ['' @ referenceName s
                              @ ''] => ['' @ ReferenceName (Destination opts) @ '']: '')
                      (Join es))
      else if n = 0 then Some ErrNoAvailableImage else None"
    have run: "Copy env opts s W = Some (st_source st, st_world st, ?r)"
      and flow: "copyMediaTypeImageIndex env opts s W
            = Some (st_source st, st_world st, n, if es = [] then None else ?r)"
      using a e c ne
      by (auto simp: Copy_def listOutcome_def copyMediaTypeImageIndex_def listResult_def)
    have iff: "?r = Some ErrNoAvailableImage \<longleftrightarrow> n = 0 \<and> es = []"
      by auto
    show ?thesis
      apply (rule exI [where x = ?r])
      using a ne run flow e c iff none mem
      by simp
  qed
qed

lemma exErrors_err:
  "listErrors exEnv exOpts (schema2List exSourceErr) (initLoop exSourceErr exWorld)
     = [Opaque ''transport'']"
  "listCopied exEnv exOpts (schema2List exSourceErr) (initLoop exSourceErr exWorld) = 1"
  by (simp_all add: entryError_def entryCopied_def exErr_defs ex_defs flow_defs mime_defs)

lemma exLoop_none:
  "listLoop exEnv exOptsS390x (schema2List exSourceErr) (initLoop exSourceErr exWorld)
     = initLoop exSourceErr exWorld"
  "listErrors exEnv exOptsS390x (schema2List exSourceErr) (initLoop exSourceErr exWorld) = []"
  "listCopied exEnv exOptsS390x (schema2List exSourceErr) (initLoop exSourceErr exWorld) = 0"
  by (simp_all add: entryError_def entryCopied_def exOptsS390x_def exErr_defs ex_defs
      flow_defs mime_defs)

theorem Copy_list_errors_witness:
  "mime exSourceErr = DockerV2ListMediaType
   \<and> schema2List exSourceErr = [exAmd64] @ exArmEE # []
   \<and> entryError exEnv exOpts ''failed to get digest: '' (s2_MediaType exArmEE)
        (s2_Digest exArmEE) (s2_Platform exArmEE)
        (listLoop exEnv exOpts [exAmd64] (initLoop exSourceErr exWorld))
       = Some (Opaque ''transport'')
   \<and> Opaque ''transport''
        \<in> set (errs (listLoop exEnv exOpts (schema2List exSourceErr)
                       (initLoop exSourceErr exWorld)))
   \<and> copiedNum (listLoop exEnv exOpts (schema2List exSourceErr) (initLoop exSourceErr exWorld))
       = 1
   \<and> Copy exEnv exOpts exSourceErr exWorld = Some (exSourceErr, exWorldErr, Some exCompositeErr)
   \<and> Copy exEnv exOptsS390x exSourceErr exWorld
       = Some (exSourceErr, exWorld, Some ErrNoAvailableImage)"
proof -
  have m: "mime exSourceErr = DockerV2ListMediaType"
    by (simp add: exSourceErr_def exSource_def)
  have n: "referenceName exSourceErr = ''r/p/n:1''"
    "ReferenceName (Destination exOpts) = ''oci:/out''"
    by (simp_all add: exSourceErr_def exSource_def exOpts_def)
  have split: "schema2List exSourceErr = [exAmd64] @ exArmEE # []"
    by (simp add: exSourceErr_def exSource_def exAmd64_def exArmEE_def)
  have ee: "entryError exEnv exOpts ''failed to get digest: '' (s2_MediaType exArmEE)
        (s2_Digest exArmEE) (s2_Platform exArmEE)
        (listLoop exEnv exOpts [exAmd64] (initLoop exSourceErr exWorld))
       = Some (Opaque ''transport'')"
    by (simp add: entryError_def exAmd64_def exArmEE_def exErr_defs ex_defs flow_defs
        mime_defs)
  let ?st = "listLoop exEnv exOpts (schema2List exSourceErr) (initLoop exSourceErr exWorld)"
  from Copy_list_errors [where s = exSourceErr and env = exEnv and opts = exOpts
      and W = exWorld and st = ?st and es = "[Opaque ''transport'']" and n = 1,
      OF disjI1, OF conjI [OF m conjI [OF refl conjI [OF exErrors_err]]]]
  obtain r where r: "Copy exEnv exOpts exSourceErr exWorld = Some (st_source ?st, st_world ?st, r)"
    "errs ?st = [Opaque ''transport'']" "copiedNum ?st = 1"
    "[Opaque ''transport''] \<noteq> [] \<longrightarrow>
       r = Some (Errorf (''error occurred when copy image ['' @ referenceName exSourceErr
                              @ ''] => ['' @ ReferenceName (Destination exOpts) @ '']: '')
                      (Join [Opaque ''transport'']))"
    by blast
  have run: "Copy exEnv exOpts exSourceErr exWorld
      = Some (exSourceErr, exWorldErr, Some exCompositeErr)"
    using r(1,4) by (simp add: exLoop_err n exCompositeErr_def)
  let ?s0 = "initLoop exSourceErr exWorld"
  from Copy_list_errors [where s = exSourceErr and env = exEnv and opts = exOptsS390x
      and W = exWorld and st = ?s0 and es = "[]" and n = 0,
      OF disjI1, OF conjI [OF m conjI [OF exLoop_none(1) conjI [OF exLoop_none(2,3)]]]]
  obtain r0 where r0: "Copy exEnv exOptsS390x exSourceErr exWorld
       = Some (st_source ?s0, st_world ?s0, r0)"
    "r0 = Some ErrNoAvailableImage \<longleftrightarrow> (0::nat) = 0 \<and> ([]::error list) = []"
    by blast
  have none: "Copy exEnv exOptsS390x exSourceErr exWorld
       = Some (exSourceErr, exWorld, Some ErrNoAvailableImage)"
    using r0 by (simp add: initLoop_def)
  from m split ee r(2,3) run none show ?thesis
    by simp
qed

section \<open>The fast path in the list flows\<close>

lemma listEntry_fast_path:
  assumes "Allow (Set_filter opts) (p_Architecture p) (p_OS p) (p_Variant p)"
    and "SigstorePrivateKey opts = []" and "HaveDigest env (ext (st_world st)) dig"
  shows "listEntry env opts dm mt dig p st = st\<lparr>copiedNum := copiedNum st + 1\<rparr>"
  using assms by (simp add: listEntry_def)

lemma listEntry_signing:
  assumes "Allow (Set_filter opts) (p_Architecture p) (p_OS p) (p_Variant p)"
    and "SigstorePrivateKey opts \<noteq> []"
  shows "listEntry env opts dm mt dig p st = copyEntry env opts dm mt dig p st"
  using assms by (simp add: listEntry_def)

lemma copyEntry_world:
  assumes "ParseImageName env (transport (st_source st) @ registry (st_source st) @ ''/''
        @ project (st_source st) @ ''/'' @ name (st_source st) @ ''@'' @ dig) = Inr sref"
    and "ReferenceMultiArch env (p_OS p) (p_OSVersion p) (p_Architecture p) (p_Variant p)
        (Encoded env dig) = Inr dref"
  shows "st_world (copyEntry env opts dm mt dig p st)
           = snd (copyImage env (mkCopyOptions opts (st_source st) sref dref mt) (st_world st))"
  using assms
  by (simp add: copyEntry_def Let_def recordCopiedImage_def
      split: prod.splits option.splits sum.splits)

lemma listLoop_entry:
  "listLoop env opts (pre @ m # post) st0 =
     listLoop env opts post
       (listEntry env opts ''failed to get digest: '' (s2_MediaType m) (s2_Digest m)
          (s2_Platform m) (listLoop env opts pre st0))"
  by (simp add: listLoop_append)

lemma indexLoop_entry:
  assumes "indexLoop env opts pre st0 = Some st" and "d_Platform m = Some p"
  shows "indexLoop env opts (pre @ m # post) st0 =
     indexLoop env opts post
       (listEntry env opts ''imagemanifest.Digest failed: '' (d_MediaType m) (d_Digest m) p st)"
  using assms by (simp add: indexLoop_append)

text \<open>A shift of the counter goes through the body and through the loops.\<close>

lemma copyEntry_shift:
  "copyEntry env opts dm mt dig p (st\<lparr>copiedNum := copiedNum st + k\<rparr>)
     = (copyEntry env opts dm mt dig p st)
         \<lparr>copiedNum := copiedNum (copyEntry env opts dm mt dig p st) + k\<rparr>"
  by (simp add: copyEntry_def Let_def recordCopiedImage_def
      split: prod.splits option.splits sum.splits)

lemma listEntry_shift:
  "listEntry env opts dm mt dig p (st\<lparr>copiedNum := copiedNum st + k\<rparr>)
     = (listEntry env opts dm mt dig p st)
         \<lparr>copiedNum := copiedNum (listEntry env opts dm mt dig p st) + k\<rparr>"
  by (simp add: listEntry_def copyEntry_shift)

lemma listLoop_shift:
  "listLoop env opts ms (st\<lparr>copiedNum := copiedNum st + k\<rparr>)
     = (listLoop env opts ms st)\<lparr>copiedNum := copiedNum (listLoop env opts ms st) + k\<rparr>"
  by (induction ms arbitrary: st) (simp_all add: listEntry_shift)

lemma indexLoop_shift:
  "indexLoop env opts ms (st\<lparr>copiedNum := copiedNum st + k\<rparr>)
     = map_option (\<lambda>st'. st'\<lparr>copiedNum := copiedNum st' + k\<rparr>) (indexLoop env opts ms st)"
  by (induction ms arbitrary: st) (simp_all add: listEntry_shift split: option.splits)


text \<open>
  Claim C5. In both list flows every entry of the list is handed to the loop body at
  the state the loop has reached (for the index: when the entry has a platform). For
  an entry that passes the filter: when \<open>SigstorePrivateKey\<close> is empty and the
  destination has the entry's digest, the body only increments \<open>copiedNum\<close> (the world,
  with its record of copier invocations, is as before); when \<open>SigstorePrivateKey\<close> is
  not empty, the body is the copy of the entry whatever the destination has, and once
  the two references resolve the world is the one \<open>copyImage\<close> returns.
\<close>

theorem list_flows_fast_path_and_signing:
  "listLoop env opts (pre @ m # post) st0 =
     listLoop env opts post
       (listEntry env opts ''failed to get digest: '' (s2_MediaType m) (s2_Digest m)
          (s2_Platform m) (listLoop env opts pre st0))
   \<and> (indexLoop env opts pre' st0 = Some st' \<and> d_Platform m' = Some p' \<longrightarrow>
        indexLoop env opts (pre' @ m' # post') st0 =
          indexLoop env opts post'
            (listEntry env opts ''imagemanifest.Digest failed: '' (d_MediaType m') (d_Digest m')
               p' st'))
   \<and> (Allow (Set_filter opts) (p_Architecture p) (p_OS p) (p_Variant p) \<longrightarrow>
        (SigstorePrivateKey opts = '''' \<and> HaveDigest env (ext (st_world st)) dig \<longrightarrow>
           listEntry env opts dm mt dig p st = st\<lparr>copiedNum := copiedNum st + 1\<rparr>)
        \<and> (SigstorePrivateKey opts \<noteq> '''' \<longrightarrow>
             listEntry env opts dm mt dig p st = copyEntry env opts dm mt dig p st
             \<and> (\<forall>sref dref.
                   ParseImageName env
                     (transport (st_source st) @ registry (st_source st) @ ''/''
                        @ project (st_source st) @ ''/'' @ name (st_source st) @ ''@'' @ dig)
                     = Inr sref
                   \<and> ReferenceMultiArch env (p_OS p) (p_OSVersion p) (p_Architecture p)
                        (p_Variant p) (Encoded env dig) = Inr dref
                   \<longrightarrow> st_world (listEntry env opts dm mt dig p st)
                         = snd (copyImage env (mkCopyOptions opts (st_source st) sref dref mt)
                                  (st_world st)))))"
proof (intro conjI impI allI)
  show "listLoop env opts (pre @ m # post) st0 =
     listLoop env opts post
       (listEntry env opts ''failed to get digest: '' (s2_MediaType m) (s2_Digest m)
          (s2_Platform m) (listLoop env opts pre st0))"
    by (rule listLoop_entry)
next
  assume "indexLoop env opts pre' st0 = Some st' \<and> d_Platform m' = Some p'"
  then show "indexLoop env opts (pre' @ m' # post') st0 =
          indexLoop env opts post'
            (listEntry env opts ''imagemanifest.Digest failed: '' (d_MediaType m') (d_Digest m')
               p' st')"
    by (simp add: indexLoop_entry)
next
  assume "Allow (Set_filter opts) (p_Architecture p) (p_OS p) (p_Variant p)"
    and "SigstorePrivateKey opts = '''' \<and> HaveDigest env (ext (st_world st)) dig"
  then show "listEntry env opts dm mt dig p st = st\<lparr>copiedNum := copiedNum st + 1\<rparr>"
    by (simp add: listEntry_fast_path)
next
  assume "Allow (Set_filter opts) (p_Architecture p) (p_OS p) (p_Variant p)"
    and "SigstorePrivateKey opts \<noteq> ''''"
  then show "listEntry env opts dm mt dig p st = copyEntry env opts dm mt dig p st"
    by (rule listEntry_signing)
next
  fix sref dref
  assume a: "Allow (Set_filter opts) (p_Architecture p) (p_OS p) (p_Variant p)"
    and k: "SigstorePrivateKey opts \<noteq> ''''"
    and r: "ParseImageName env
                     (transport (st_source st) @ registry (st_source st) @ ''/''
                        @ project (st_source st) @ ''/'' @ name (st_source st) @ ''@'' @ dig)
                     = Inr sref
                   \<and> ReferenceMultiArch env (p_OS p) (p_OSVersion p) (p_Architecture p)
                        (p_Variant p) (Encoded env dig) = Inr dref"
  show "st_world (listEntry env opts dm mt dig p st)
          = snd (copyImage env (mkCopyOptions opts (st_source st) sref dref mt) (st_world st))"
    using r by (simp add: listEntry_signing [OF a k] copyEntry_world)
qed

theorem list_flows_fast_path_and_signing_witness:
  "HaveDigest exEnv (ext exWorld) (s2_Digest exAmd64)
   \<and> listLoop exEnv exOpts [exAmd64] (initLoop exSource exWorld)
       = (initLoop exSource exWorld)\<lparr>copiedNum := 1\<rparr>
   \<and> indexLoop exEnv exOpts [exIndexAmd64] (initLoop exSource exWorld)
       = Some ((initLoop exSource exWorld)\<lparr>copiedNum := 1\<rparr>)
   \<and> map co_SourceRef
        (copies (st_world (listLoop exEnv exOptsKey [exAmd64] (initLoop exSource exWorld))))
       = [''docker://r/p/n@sha256:aa'']"
  using
    list_flows_fast_path_and_signing [where env = exEnv and opts = exOpts and pre = "[]"
      and m = exAmd64 and post = "[]" and st0 = "initLoop exSource exWorld" and pre' = "[]"
      and st' = "initLoop exSource exWorld" and m' = exIndexAmd64 and post' = "[]"
      and p' = "the (d_Platform exIndexAmd64)"
      and p = "s2_Platform exAmd64" and st = "initLoop exSource exWorld"
      and dig = "s2_Digest exAmd64" and mt = "s2_MediaType exAmd64"
      and dm = "''failed to get digest: ''"]
    list_flows_fast_path_and_signing [where env = exEnv and opts = exOptsKey and pre = "[]"
      and m = exAmd64 and post = "[]" and st0 = "initLoop exSource exWorld" and pre' = "[]"
      and st' = "initLoop exSource exWorld" and m' = exIndexAmd64 and post' = "[]"
      and p' = "the (d_Platform exIndexAmd64)"
      and p = "s2_Platform exAmd64" and st = "initLoop exSource exWorld"
      and dig = "s2_Digest exAmd64" and mt = "s2_MediaType exAmd64"
      and dm = "''failed to get digest: ''"]
  by (simp add: exAmd64_def exIndexAmd64_def exOptsKey_def ex_defs flow_defs mime_defs)


section \<open>The frame of the fast path\<close>

lemma copyDockerV2Schema2MediaType_fast_path:
  assumes "Allow (Set_filter opts) (c_Architecture (ociConfig s)) (c_OS (ociConfig s))
             (c_Variant (ociConfig s))"
    and "SigstorePrivateKey opts = []" and "HaveDigest env (ext W) (manifestDigest s)"
  shows "copyDockerV2Schema2MediaType env opts s W = (s, W, None)"
  using assms by (simp add: copyDockerV2Schema2MediaType_def)

lemma listLoop_skip:
  assumes "Allow (Set_filter opts) (p_Architecture (s2_Platform m)) (p_OS (s2_Platform m))
             (p_Variant (s2_Platform m))"
    and "SigstorePrivateKey opts = []"
    and "HaveDigest env (ext (st_world (listLoop env opts pre st0))) (s2_Digest m)"
  shows "listLoop env opts (pre @ m # post) st0 =
           (listLoop env opts (pre @ post) st0)
             \<lparr>copiedNum := copiedNum (listLoop env opts (pre @ post) st0) + 1\<rparr>"
  using assms listLoop_shift [of env opts post "listLoop env opts pre st0" 1]
  by (simp add: listLoop_append listEntry_fast_path)

lemma indexLoop_skip:
  assumes "indexLoop env opts pre st0 = Some st" and "d_Platform m = Some p"
    and "Allow (Set_filter opts) (p_Architecture p) (p_OS p) (p_Variant p)"
    and "SigstorePrivateKey opts = []"
    and "HaveDigest env (ext (st_world st)) (d_Digest m)"
  shows "indexLoop env opts (pre @ m # post) st0 =
           map_option (\<lambda>x. x\<lparr>copiedNum := copiedNum x + 1\<rparr>)
             (indexLoop env opts (pre @ post) st0)"
  using assms indexLoop_shift [of env opts post st 1]
  by (simp add: indexLoop_append listEntry_fast_path)

text \<open>
  Claim C10, as stated, fails in its last clause: the architecture and the system of a
  variant skipped on the fast path are in \<open>ArchList\<close> and \<open>OsList\<close> when another
  variant with the same architecture or system is copied. In the list of two \<open>amd64\<close>
  entries the first is skipped (the destination has its digest), the second is copied,
  and the final record lists \<open>amd64\<close> and \<open>linux\<close>.
\<close>

theorem skipped_variant_listed_counterexample:
  "schema2List exSourceAmd64s = [] @ exAmd64 # [exEntry ''amd64'' '''' ''sha256:bb'']
   \<and> Allow (Set_filter exOpts) (p_Architecture (s2_Platform exAmd64))
        (p_OS (s2_Platform exAmd64)) (p_Variant (s2_Platform exAmd64))
   \<and> SigstorePrivateKey exOpts = ''''
   \<and> HaveDigest exEnv
        (ext (st_world (listLoop exEnv exOpts [] (initLoop exSourceAmd64s exWorld))))
        (s2_Digest exAmd64)
   \<and> p_Architecture (s2_Platform exAmd64)
        \<in> set (ArchList (GetCopiedImage (rangeRank exEnv)
                   (fst (the (Copy exEnv exOpts exSourceAmd64s exWorld)))))
   \<and> p_OS (s2_Platform exAmd64)
        \<in> set (OsList (GetCopiedImage (rangeRank exEnv)
                   (fst (the (Copy exEnv exOpts exSourceAmd64s exWorld)))))
   \<and> map Digest (Images (GetCopiedImage (rangeRank exEnv)
                   (fst (the (Copy exEnv exOpts exSourceAmd64s exWorld))))) = [''sha256:dd'']"
  by (simp add: exSourceAmd64s_def exAmd64_def GetCopiedImage_def rangeKeys_def ex_defs
      flow_defs mime_defs)

text \<open>
  Claim C10, amended. A skip on the fast path leaves the accumulators as they are. In
  the list flows the body returns the loop variables with \<open>copiedNum\<close> incremented and
  nothing else changed; in the docker v2 schema-2 flow the result is the session and the
  world as they were, with no error. So the skip adds nothing to the final record:
  \<open>GetCopiedImage\<close> is the same after the skip as before it, and a list flow ends, up
  to the count, in the state it ends in on the list without the skipped entry. (The
  architecture or the system of the skipped variant is in the final record exactly when
  it would be there without that entry.)
\<close>

theorem fast_path_skip_frame:
  "(Allow (Set_filter opts) (p_Architecture p) (p_OS p) (p_Variant p)
      \<and> SigstorePrivateKey opts = '''' \<and> HaveDigest env (ext (st_world st)) dig \<longrightarrow>
        st_source (listEntry env opts dm mt dig p st) = st_source st
      \<and> st_world (listEntry env opts dm mt dig p st) = st_world st
      \<and> errs (listEntry env opts dm mt dig p st) = errs st
      \<and> copiedNum (listEntry env opts dm mt dig p st) = copiedNum st + 1
      \<and> GetCopiedImage rank (st_source (listEntry env opts dm mt dig p st))
          = GetCopiedImage rank (st_source st))
   \<and> (Allow (Set_filter opts) (c_Architecture (ociConfig s)) (c_OS (ociConfig s))
         (c_Variant (ociConfig s))
      \<and> SigstorePrivateKey opts = '''' \<and> HaveDigest env (ext W) (manifestDigest s) \<longrightarrow>
        copyDockerV2Schema2MediaType env opts s W = (s, W, None))
   \<and> (Allow (Set_filter opts) (p_Architecture (s2_Platform m)) (p_OS (s2_Platform m))
         (p_Variant (s2_Platform m))
      \<and> SigstorePrivateKey opts = ''''
      \<and> HaveDigest env (ext (st_world (listLoop env opts pre st0))) (s2_Digest m) \<longrightarrow>
        listLoop env opts (pre @ m # post) st0 =
          (listLoop env opts (pre @ post) st0)
            \<lparr>copiedNum := copiedNum (listLoop env opts (pre @ post) st0) + 1\<rparr>
      \<and> GetCopiedImage rank (st_source (listLoop env opts (pre @ m # post) st0))
          = GetCopiedImage rank (st_source (listLoop env opts (pre @ post) st0)))
   \<and> (indexLoop env opts pre' st0 = Some st' \<and> d_Platform m' = Some p'
      \<and> Allow (Set_filter opts) (p_Architecture p') (p_OS p') (p_Variant p')
      \<and> SigstorePrivateKey opts = '''' \<and> HaveDigest env (ext (st_world st')) (d_Digest m') \<longrightarrow>
        indexLoop env opts (pre' @ m' # post') st0 =
          map_option (\<lambda>x. x\<lparr>copiedNum := copiedNum x + 1\<rparr>)
            (indexLoop env opts (pre' @ post') st0))"
proof (intro conjI impI)
  assume h: "Allow (Set_filter opts) (p_Architecture p) (p_OS p) (p_Variant p)
      \<and> SigstorePrivateKey opts = '''' \<and> HaveDigest env (ext (st_world st)) dig"
  then have eq: "listEntry env opts dm mt dig p st = st\<lparr>copiedNum := copiedNum st + 1\<rparr>"
    by (simp add: listEntry_fast_path)
  show "st_source (listEntry env opts dm mt dig p st) = st_source st"
    and "st_world (listEntry env opts dm mt dig p st) = st_world st"
    and "errs (listEntry env opts dm mt dig p st) = errs st"
    and "copiedNum (listEntry env opts dm mt dig p st) = copiedNum st + 1"
    and "GetCopiedImage rank (st_source (listEntry env opts dm mt dig p st))
          = GetCopiedImage rank (st_source st)"
    by (simp_all add: eq)
next
  assume "Allow (Set_filter opts) (c_Architecture (ociConfig s)) (c_OS (ociConfig s))
         (c_Variant (ociConfig s))
      \<and> SigstorePrivateKey opts = '''' \<and> HaveDigest env (ext W) (manifestDigest s)"
  then show "copyDockerV2Schema2MediaType env opts s W = (s, W, None)"
    by (simp add: copyDockerV2Schema2MediaType_fast_path)
next
  assume h: "Allow (Set_filter opts) (p_Architecture (s2_Platform m)) (p_OS (s2_Platform m))
         (p_Variant (s2_Platform m))
      \<and> SigstorePrivateKey opts = ''''
      \<and> HaveDigest env (ext (st_world (listLoop env opts pre st0))) (s2_Digest m)"
  then show eq: "listLoop env opts (pre @ m # post) st0 =
          (listLoop env opts (pre @ post) st0)
            \<lparr>copiedNum := copiedNum (listLoop env opts (pre @ post) st0) + 1\<rparr>"
    by (simp add: listLoop_skip)
  show "GetCopiedImage rank (st_source (listLoop env opts (pre @ m # post) st0))
          = GetCopiedImage rank (st_source (listLoop env opts (pre @ post) st0))"
    by (simp add: eq)
next
  assume "indexLoop env opts pre' st0 = Some st' \<and> d_Platform m' = Some p'
      \<and> Allow (Set_filter opts) (p_Architecture p') (p_OS p') (p_Variant p')
      \<and> SigstorePrivateKey opts = '''' \<and> HaveDigest env (ext (st_world st')) (d_Digest m')"
  then show "indexLoop env opts (pre' @ m' # post') st0 =
          map_option (\<lambda>x. x\<lparr>copiedNum := copiedNum x + 1\<rparr>)
            (indexLoop env opts (pre' @ post') st0)"
    by (simp add: indexLoop_skip)
qed


theorem fast_path_skip_frame_witness:
  "HaveDigest exEnv (ext exWorld) (s2_Digest exAmd64)
   \<and> copyDockerV2Schema2MediaType exEnv exOpts exSource exWorld = (exSource, exWorld, None)
   \<and> st_source (listEntry exEnv exOpts ''failed to get digest: '' (s2_MediaType exAmd64)
         (s2_Digest exAmd64) (s2_Platform exAmd64) (initLoop exSource exWorld)) = exSource
   \<and> Images (GetCopiedImage (rangeRank exEnv)
         (st_source (listLoop exEnv exOpts (schema2List exSource) (initLoop exSource exWorld))))
       = [exSpecArm64, exSpecArm]
   \<and> indexLoop exEnv exOpts [exIndexAmd64] (initLoop exSource exWorld)
       = Some ((initLoop exSource exWorld)\<lparr>copiedNum := 1\<rparr>)"
  using
    fast_path_skip_frame [where env = exEnv and opts = exOpts and p = "s2_Platform exAmd64"
      and st = "initLoop exSource exWorld" and dig = "s2_Digest exAmd64"
      and mt = "s2_MediaType exAmd64" and dm = "''failed to get digest: ''"
      and rank = "rangeRank exEnv" and s = exSource and W = exWorld
      and m = exAmd64 and pre = "[]" and st0 = "initLoop exSource exWorld"
      and post = "tl (schema2List exSource)"
      and pre' = "[]" and st' = "initLoop exSource exWorld" and m' = exIndexAmd64
      and p' = "the (d_Platform exIndexAmd64)" and post' = "[]"]
  by (simp add: exAmd64_def exIndexAmd64_def ex_defs flow_defs mime_defs GetCopiedImage_def
      copyDockerV2Schema2MediaType_def)

section \<open>The single-image copier: properties\<close>

text \<open>
  Claim C6. \<open>copyImage\<close> returns an error and leaves the world alone (the copier is
  not invoked) when \<open>sourceMIME\<close> is a docker v2 list or an OCI index. When it is
  docker schema-1 or schema-1-signed, the copier is invoked once, with digest
  preservation off and the manifest type forced to docker schema-2. For every other
  \<open>sourceMIME\<close> the copier is invoked once, with digest preservation on and no forced
  type. In both cases \<open>copyImage\<close> returns the copier's error.
\<close>

theorem copyImage_contract:
  "(sourceMIME opt = DockerV2ListMediaType \<or> sourceMIME opt = MediaTypeImageIndex \<longrightarrow>
      copyImage env opt W = (Some (NotSingleImage (sourceMIME opt)), W))
   \<and> (sourceMIME opt = DockerV2Schema1MediaType
        \<or> sourceMIME opt = DockerV2Schema1SignedMediaType \<longrightarrow>
      (\<exists>c. copies (snd (copyImage env opt W)) = copies W @ [c]
            \<and> fst (copyImage env opt W) = fst (copier_Copy env c (ext W))
            \<and> ext (snd (copyImage env opt W)) = snd (copier_Copy env c (ext W))
            \<and> co_SourceRef c = sourceRef opt \<and> co_DestRef c = destRef opt
            \<and> \<not> v5_PreserveDigests (co_Options c)
            \<and> v5_ForceManifestMIMEType (co_Options c) = DockerV2Schema2MediaType))
   \<and> (sourceMIME opt \<noteq> DockerV2ListMediaType \<and> sourceMIME opt \<noteq> MediaTypeImageIndex
        \<and> sourceMIME opt \<noteq> DockerV2Schema1MediaType
        \<and> sourceMIME opt \<noteq> DockerV2Schema1SignedMediaType \<longrightarrow>
      (\<exists>c. copies (snd (copyImage env opt W)) = copies W @ [c]
            \<and> fst (copyImage env opt W) = fst (copier_Copy env c (ext W))
            \<and> ext (snd (copyImage env opt W)) = snd (copier_Copy env c (ext W))
            \<and> co_SourceRef c = sourceRef opt \<and> co_DestRef c = destRef opt
            \<and> v5_PreserveDigests (co_Options c)
            \<and> v5_ForceManifestMIMEType (co_Options c) = ''''))"
proof (intro conjI impI)
  assume "sourceMIME opt = DockerV2ListMediaType \<or> sourceMIME opt = MediaTypeImageIndex"
  then show "copyImage env opt W = (Some (NotSingleImage (sourceMIME opt)), W)"
    by (auto simp: copyImage_def mime_defs)
next
  assume "sourceMIME opt = DockerV2Schema1MediaType
        \<or> sourceMIME opt = DockerV2Schema1SignedMediaType"
  then show "\<exists>c. copies (snd (copyImage env opt W)) = copies W @ [c]
            \<and> fst (copyImage env opt W) = fst (copier_Copy env c (ext W))
            \<and> ext (snd (copyImage env opt W)) = snd (copier_Copy env c (ext W))
            \<and> co_SourceRef c = sourceRef opt \<and> co_DestRef c = destRef opt
            \<and> \<not> v5_PreserveDigests (co_Options c)
            \<and> v5_ForceManifestMIMEType (co_Options c) = DockerV2Schema2MediaType"
    by (auto simp: copyImage_def runCopier_def Let_def split: prod.splits)
next
  assume "sourceMIME opt \<noteq> DockerV2ListMediaType \<and> sourceMIME opt \<noteq> MediaTypeImageIndex
        \<and> sourceMIME opt \<noteq> DockerV2Schema1MediaType
        \<and> sourceMIME opt \<noteq> DockerV2Schema1SignedMediaType"
  then show "\<exists>c. copies (snd (copyImage env opt W)) = copies W @ [c]
            \<and> fst (copyImage env opt W) = fst (copier_Copy env c (ext W))
            \<and> ext (snd (copyImage env opt W)) = snd (copier_Copy env c (ext W))
            \<and> co_SourceRef c = sourceRef opt \<and> co_DestRef c = destRef opt
            \<and> v5_PreserveDigests (co_Options c)
            \<and> v5_ForceManifestMIMEType (co_Options c) = ''''"
    by (auto simp: copyImage_def runCopier_def Let_def split: prod.splits)
qed

theorem copyImage_contract_witness:
  "copyImage exEnv (mkCopyOptions exOpts exSource ''src'' ''dst'' MediaTypeImageIndex) exWorld
     = (Some (NotSingleImage MediaTypeImageIndex), exWorld)
   \<and> map (\<lambda>c. (v5_PreserveDigests (co_Options c), v5_ForceManifestMIMEType (co_Options c)))
        (copies (snd (copyImage exEnv
           (mkCopyOptions exOpts exSource ''src'' ''dst'' DockerV2Schema1MediaType) exWorld)))
     = [(False, DockerV2Schema2MediaType)]
   \<and> map (\<lambda>c. (v5_PreserveDigests (co_Options c), v5_ForceManifestMIMEType (co_Options c)))
        (copies (snd (copyImage exEnv
           (mkCopyOptions exOpts exSource ''src'' ''dst'' MediaTypeImageManifest) exWorld)))
     = [(True, '''')]"
  using
    copyImage_contract [of "mkCopyOptions exOpts exSource ''src'' ''dst'' MediaTypeImageIndex"
      exEnv exWorld]
    copyImage_contract [of "mkCopyOptions exOpts exSource ''src'' ''dst'' DockerV2Schema1MediaType"
      exEnv exWorld]
    copyImage_contract [of "mkCopyOptions exOpts exSource ''src'' ''dst'' MediaTypeImageManifest"
      exEnv exWorld]
  by (simp add: mkCopyOptions_def mime_defs exWorld_def)
     (simp add: copyImage_def runCopier_def mime_defs ex_defs)

section \<open>The schema-1 flow\<close>

lemma renameStaged_cases:
  "renameStaged env opts md W =
     (if dst_Type (Destination opts) = TypeOci then
        (map_option
           (Errorf (''failed to rename [''
                      @ filepath_Join env (Directory (Destination opts)) ''UNKNOW''
                      @ ''] to [''
                      @ filepath_Join env (Directory (Destination opts)) (Encoded env md)
                      @ '']: ''))
           (fst (os_Rename env (filepath_Join env (Directory (Destination opts)) ''UNKNOW'')
                   (filepath_Join env (Directory (Destination opts)) (Encoded env md)) (ext W))),
         W\<lparr>ext := snd (os_Rename env
                          (filepath_Join env (Directory (Destination opts)) ''UNKNOW'')
                          (filepath_Join env (Directory (Destination opts)) (Encoded env md))
                          (ext W)),
           renames := renames W
             @ [(filepath_Join env (Directory (Destination opts)) ''UNKNOW'',
                 filepath_Join env (Directory (Destination opts)) (Encoded env md))]\<rparr>)
      else (None, W))"
  by (simp add: renameStaged_def Let_def split: prod.splits)

text \<open>The flow once the copy and the inspection of the destination have succeeded.\<close>

lemma copyDockerV2Schema1MediaType_inspected:
  assumes "Allow (Set_filter opts) (ii_Architecture (imageInspectInfo s))
             (ii_Os (imageInspectInfo s)) (ii_Variant (imageInspectInfo s))"
    and "Reference env s = Inr sref"
    and "ReferenceMultiArch env (ii_Os (imageInspectInfo s)) [] (ii_Architecture (imageInspectInfo s))
           (ii_Variant (imageInspectInfo s)) ''UNKNOW'' = Inr dref"
    and "copyImage env (mkCopyOptions opts s sref dref (mime s)) W = (None, W1)"
    and "NewInspector env (ext W1) dref (dst_SystemContext (Destination opts)) = Inr insp"
    and "Raw env (ext W1) insp = Inr (b, mt)"
    and "manifest_Digest env b = Inr md"
    and "Schema2FromManifest env b = Inr sch"
  shows "copyDockerV2Schema1MediaType env opts s W =
     (case renameStaged env opts md W1 of
        (Some err, W2) \<Rightarrow> (s, W2, Some err)
      | (None, W2) \<Rightarrow>
          (fst (recordCopiedImage s
             (updateSpecDockerV2Schema2
                \<lparr>Arch = ii_Architecture (imageInspectInfo s), OS = ii_Os (imageInspectInfo s),
                 OSVersion = [], OSFeatures = [], Variant = ii_Variant (imageInspectInfo s),
                 MediaType = mt, Layers = [], Config = s2_Digest (ConfigDescriptor sch),
                 Digest = md\<rparr> sch)), W2, None))"
  using assms
  by (simp add: copyDockerV2Schema1MediaType_def Let_def recordCopiedImage_def
      split: prod.splits option.splits)

text \<open>A flow without error has been through the copy, the inspection and the rename.\<close>

lemma copyDockerV2Schema1MediaType_success:
  assumes "copyDockerV2Schema1MediaType env opts s W = (s', W', None)"
  shows "\<exists>sref dref W1 insp b mt md sch.
     Reference env s = Inr sref
     \<and> ReferenceMultiArch env (ii_Os (imageInspectInfo s)) [] (ii_Architecture (imageInspectInfo s))
           (ii_Variant (imageInspectInfo s)) ''UNKNOW'' = Inr dref
     \<and> copyImage env (mkCopyOptions opts s sref dref (mime s)) W = (None, W1)
     \<and> NewInspector env (ext W1) dref (dst_SystemContext (Destination opts)) = Inr insp
     \<and> Raw env (ext W1) insp = Inr (b, mt)
     \<and> manifest_Digest env b = Inr md
     \<and> Schema2FromManifest env b = Inr sch
     \<and> renameStaged env opts md W1 = (None, W')
     \<and> s' = fst (recordCopiedImage s
             (updateSpecDockerV2Schema2
                \<lparr>Arch = ii_Architecture (imageInspectInfo s), OS = ii_Os (imageInspectInfo s),
                 OSVersion = [], OSFeatures = [], Variant = ii_Variant (imageInspectInfo s),
                 MediaType = mt, Layers = [], Config = s2_Digest (ConfigDescriptor sch),
                 Digest = md\<rparr> sch))"
  using assms
  by (auto simp: copyDockerV2Schema1MediaType_def Let_def recordCopiedImage_def
      split: if_splits sum.splits prod.splits option.splits)


lemma copyImage_renames: "renames (snd (copyImage env opt W)) = renames W"
  by (simp add: copyImage_def runCopier_def Let_def split: prod.splits)

text \<open>
  Claim C7. When the schema-1 flow returns without error, the spec it has recorded has
  as digest the manifest digest computed from the raw bytes that an inspector, opened
  on the destination reference after the copy, has read; and when the destination is an
  on-disk OCI layout, \<open>os.Rename\<close> has been called once, without error, from
  \<open>{destDir}/UNKNOW\<close> to \<open>{destDir}/{encoded digest}\<close>, and the world the flow
  returns is the one that rename has left: the external state is the state after the
  rename of the state after the copy. When that rename fails the flow returns an error
  that wraps the rename's, and the session is as before: nothing is recorded. When the
  copy, the inspection of the destination and, for an OCI layout, the rename succeed, the
  flow does return without error, with that spec recorded.
\<close>

theorem schema1_digest_and_rename:
  "(copyDockerV2Schema1MediaType env opts s W = (s', W', None) \<longrightarrow>
      (\<exists>sref dref W1 insp b mt md spec.
          copyImage env (mkCopyOptions opts s sref dref (mime s)) W = (None, W1)
        \<and> NewInspector env (ext W1) dref (dst_SystemContext (Destination opts)) = Inr insp
        \<and> Raw env (ext W1) insp = Inr (b, mt)
        \<and> manifest_Digest env b = Inr md
        \<and> s' = fst (recordCopiedImage s spec) \<and> Digest spec = md \<and> MediaType spec = mt
        \<and> (dst_Type (Destination opts) = TypeOci \<longrightarrow>
             fst (os_Rename env (filepath_Join env (Directory (Destination opts)) ''UNKNOW'')
                    (filepath_Join env (Directory (Destination opts)) (Encoded env md))
                    (ext W1)) = None
             \<and> W' = W1
                  \<lparr>ext := snd (os_Rename env
                                 (filepath_Join env (Directory (Destination opts)) ''UNKNOW'')
                                 (filepath_Join env (Directory (Destination opts)) (Encoded env md))
                                 (ext W1)),
                   renames := renames W
                     @ [(filepath_Join env (Directory (Destination opts)) ''UNKNOW'',
                         filepath_Join env (Directory (Destination opts)) (Encoded env md))]\<rparr>)
        \<and> (dst_Type (Destination opts) \<noteq> TypeOci \<longrightarrow> W' = W1)))
   \<and> (Allow (Set_filter opts) (ii_Architecture (imageInspectInfo s))
             (ii_Os (imageInspectInfo s)) (ii_Variant (imageInspectInfo s))
      \<and> Reference env s = Inr sref0
      \<and> ReferenceMultiArch env (ii_Os (imageInspectInfo s)) '''' (ii_Architecture (imageInspectInfo s))
           (ii_Variant (imageInspectInfo s)) ''UNKNOW'' = Inr dref0
      \<and> copyImage env (mkCopyOptions opts s sref0 dref0 (mime s)) W = (None, V)
      \<and> NewInspector env (ext V) dref0 (dst_SystemContext (Destination opts)) = Inr insp0
      \<and> Raw env (ext V) insp0 = Inr (b0, mt0)
      \<and> manifest_Digest env b0 = Inr md0
      \<and> Schema2FromManifest env b0 = Inr sch0
      \<and> dst_Type (Destination opts) = TypeOci
      \<and> os_Rename env (filepath_Join env (Directory (Destination opts)) ''UNKNOW'')
           (filepath_Join env (Directory (Destination opts)) (Encoded env md0)) (ext V)
         = (Some e, v') \<longrightarrow>
        copyDockerV2Schema1MediaType env opts s W =
          (s,
           V\<lparr>ext := v',
             renames := renames V
               @ [(filepath_Join env (Directory (Destination opts)) ''UNKNOW'',
                   filepath_Join env (Directory (Destination opts)) (Encoded env md0))]\<rparr>,
           Some (Errorf (''failed to rename [''
                           @ filepath_Join env (Directory (Destination opts)) ''UNKNOW''
                           @ ''] to [''
                           @ filepath_Join env (Directory (Destination opts)) (Encoded env md0)
                           @ '']: '') e)))
   \<and> (Allow (Set_filter opts) (ii_Architecture (imageInspectInfo s))
             (ii_Os (imageInspectInfo s)) (ii_Variant (imageInspectInfo s))
      \<and> Reference env s = Inr sref1
      \<and> ReferenceMultiArch env (ii_Os (imageInspectInfo s)) '''' (ii_Architecture (imageInspectInfo s))
           (ii_Variant (imageInspectInfo s)) ''UNKNOW'' = Inr dref1
      \<and> copyImage env (mkCopyOptions opts s sref1 dref1 (mime s)) W = (None, U)
      \<and> NewInspector env (ext U) dref1 (dst_SystemContext (Destination opts)) = Inr insp1
      \<and> Raw env (ext U) insp1 = Inr (b1, mt1)
      \<and> manifest_Digest env b1 = Inr md1
      \<and> Schema2FromManifest env b1 = Inr sch1
      \<and> (dst_Type (Destination opts) = TypeOci
           \<and> os_Rename env (filepath_Join env (Directory (Destination opts)) ''UNKNOW'')
                (filepath_Join env (Directory (Destination opts)) (Encoded env md1)) (ext U)
              = (None, u')
           \<and> U' = U\<lparr>ext := u',
                     renames := renames U
                       @ [(filepath_Join env (Directory (Destination opts)) ''UNKNOW'',
                           filepath_Join env (Directory (Destination opts))
                             (Encoded env md1))]\<rparr>
          \<or> dst_Type (Destination opts) \<noteq> TypeOci \<and> U' = U) \<longrightarrow>
        copyDockerV2Schema1MediaType env opts s W =
          (fst (recordCopiedImage s
             (updateSpecDockerV2Schema2
                \<lparr>Arch = ii_Architecture (imageInspectInfo s), OS = ii_Os (imageInspectInfo s),
                 OSVersion = '''', OSFeatures = [], Variant = ii_Variant (imageInspectInfo s),
                 MediaType = mt1, Layers = [], Config = s2_Digest (ConfigDescriptor sch1),
                 Digest = md1\<rparr> sch1)),
           U', None))"
proof (intro conjI impI)
  assume c: "Allow (Set_filter opts) (ii_Architecture (imageInspectInfo s))
             (ii_Os (imageInspectInfo s)) (ii_Variant (imageInspectInfo s))
      \<and> Reference env s = Inr sref1
      \<and> ReferenceMultiArch env (ii_Os (imageInspectInfo s)) '''' (ii_Architecture (imageInspectInfo s))
           (ii_Variant (imageInspectInfo s)) ''UNKNOW'' = Inr dref1
      \<and> copyImage env (mkCopyOptions opts s sref1 dref1 (mime s)) W = (None, U)
      \<and> NewInspector env (ext U) dref1 (dst_SystemContext (Destination opts)) = Inr insp1
      \<and> Raw env (ext U) insp1 = Inr (b1, mt1)
      \<and> manifest_Digest env b1 = Inr md1
      \<and> Schema2FromManifest env b1 = Inr sch1
      \<and> (dst_Type (Destination opts) = TypeOci
           \<and> os_Rename env (filepath_Join env (Directory (Destination opts)) ''UNKNOW'')
                (filepath_Join env (Directory (Destination opts)) (Encoded env md1)) (ext U)
              = (None, u')
           \<and> U' = U\<lparr>ext := u',
                     renames := renames U
                       @ [(filepath_Join env (Directory (Destination opts)) ''UNKNOW'',
                           filepath_Join env (Directory (Destination opts))
                             (Encoded env md1))]\<rparr>
          \<or> dst_Type (Destination opts) \<noteq> TypeOci \<and> U' = U)"
  then have "copyDockerV2Schema1MediaType env opts s W =
     (case renameStaged env opts md1 U of
        (Some err, W2) \<Rightarrow> (s, W2, Some err)
      | (None, W2) \<Rightarrow>
          (fst (recordCopiedImage s
             (updateSpecDockerV2Schema2
                \<lparr>Arch = ii_Architecture (imageInspectInfo s), OS = ii_Os (imageInspectInfo s),
                 OSVersion = [], OSFeatures = [], Variant = ii_Variant (imageInspectInfo s),
                 MediaType = mt1, Layers = [], Config = s2_Digest (ConfigDescriptor sch1),
                 Digest = md1\<rparr> sch1)), W2, None))"
    using copyDockerV2Schema1MediaType_inspected [where env = env and opts = opts and s = s
        and sref = sref1 and dref = dref1 and W = W and ?W1.0 = U and insp = insp1 and b = b1
        and mt = mt1 and md = md1 and sch = sch1]
    by simp
  with c show "copyDockerV2Schema1MediaType env opts s W =
          (fst (recordCopiedImage s
             (updateSpecDockerV2Schema2
                \<lparr>Arch = ii_Architecture (imageInspectInfo s), OS = ii_Os (imageInspectInfo s),
                 OSVersion = '''', OSFeatures = [], Variant = ii_Variant (imageInspectInfo s),
                 MediaType = mt1, Layers = [], Config = s2_Digest (ConfigDescriptor sch1),
                 Digest = md1\<rparr> sch1)),
           U', None)"
    by (auto simp: renameStaged_cases)
next
  assume "copyDockerV2Schema1MediaType env opts s W = (s', W', None)"
  from copyDockerV2Schema1MediaType_success [OF this]
  obtain sref dref W1 insp b mt md sch where h:
    "copyImage env (mkCopyOptions opts s sref dref (mime s)) W = (None, W1)"
    "NewInspector env (ext W1) dref (dst_SystemContext (Destination opts)) = Inr insp"
    "Raw env (ext W1) insp = Inr (b, mt)"
    "manifest_Digest env b = Inr md"
    "renameStaged env opts md W1 = (None, W')"
    "s' = fst (recordCopiedImage s
             (updateSpecDockerV2Schema2
                \<lparr>Arch = ii_Architecture (imageInspectInfo s), OS = ii_Os (imageInspectInfo s),
                 OSVersion = [], OSFeatures = [], Variant = ii_Variant (imageInspectInfo s),
                 MediaType = mt, Layers = [], Config = s2_Digest (ConfigDescriptor sch),
                 Digest = md\<rparr> sch))"
    by blast
  let ?spec = "updateSpecDockerV2Schema2
                \<lparr>Arch = ii_Architecture (imageInspectInfo s), OS = ii_Os (imageInspectInfo s),
                 OSVersion = [], OSFeatures = [], Variant = ii_Variant (imageInspectInfo s),
                 MediaType = mt, Layers = [], Config = s2_Digest (ConfigDescriptor sch),
                 Digest = md\<rparr> sch"
  have d: "Digest ?spec = md" "MediaType ?spec = mt"
    by (simp_all add: updateSpecDockerV2Schema2_eq)
  have r1: "renames W1 = renames W"
    using copyImage_renames [of env "mkCopyOptions opts s sref dref (mime s)" W] h(1) by simp
  have oci: "dst_Type (Destination opts) = TypeOci \<longrightarrow>
             fst (os_Rename env (filepath_Join env (Directory (Destination opts)) ''UNKNOW'')
                    (filepath_Join env (Directory (Destination opts)) (Encoded env md))
                    (ext W1)) = None
             \<and> W' = W1
                  \<lparr>ext := snd (os_Rename env
                                 (filepath_Join env (Directory (Destination opts)) ''UNKNOW'')
                                 (filepath_Join env (Directory (Destination opts)) (Encoded env md))
                                 (ext W1)),
                   renames := renames W
                     @ [(filepath_Join env (Directory (Destination opts)) ''UNKNOW'',
                         filepath_Join env (Directory (Destination opts)) (Encoded env md))]\<rparr>"
    using h(5) r1 by (auto simp: renameStaged_cases)
  have other: "dst_Type (Destination opts) \<noteq> TypeOci \<longrightarrow> W' = W1"
    using h(5) by (auto simp: renameStaged_cases)
  from h(1-4) h(6) d oci other
  show "\<exists>sref dref W1 insp b mt md spec.
          copyImage env (mkCopyOptions opts s sref dref (mime s)) W = (None, W1)
        \<and> NewInspector env (ext W1) dref (dst_SystemContext (Destination opts)) = Inr insp
        \<and> Raw env (ext W1) insp = Inr (b, mt)
        \<and> manifest_Digest env b = Inr md
        \<and> s' = fst (recordCopiedImage s spec) \<and> Digest spec = md \<and> MediaType spec = mt
        \<and> (dst_Type (Destination opts) = TypeOci \<longrightarrow>
             fst (os_Rename env (filepath_Join env (Directory (Destination opts)) ''UNKNOW'')
                    (filepath_Join env (Directory (Destination opts)) (Encoded env md))
                    (ext W1)) = None
             \<and> W' = W1
                  \<lparr>ext := snd (os_Rename env
                                 (filepath_Join env (Directory (Destination opts)) ''UNKNOW'')
                                 (filepath_Join env (Directory (Destination opts)) (Encoded env md))
                                 (ext W1)),
                   renames := renames W
                     @ [(filepath_Join env (Directory (Destination opts)) ''UNKNOW'',
                         filepath_Join env (Directory (Destination opts)) (Encoded env md))]\<rparr>)
        \<and> (dst_Type (Destination opts) \<noteq> TypeOci \<longrightarrow> W' = W1)"
    by blast
next
  assume a: "Allow (Set_filter opts) (ii_Architecture (imageInspectInfo s))
             (ii_Os (imageInspectInfo s)) (ii_Variant (imageInspectInfo s))
      \<and> Reference env s = Inr sref0
      \<and> ReferenceMultiArch env (ii_Os (imageInspectInfo s)) '''' (ii_Architecture (imageInspectInfo s))
           (ii_Variant (imageInspectInfo s)) ''UNKNOW'' = Inr dref0
      \<and> copyImage env (mkCopyOptions opts s sref0 dref0 (mime s)) W = (None, V)
      \<and> NewInspector env (ext V) dref0 (dst_SystemContext (Destination opts)) = Inr insp0
      \<and> Raw env (ext V) insp0 = Inr (b0, mt0)
      \<and> manifest_Digest env b0 = Inr md0
      \<and> Schema2FromManifest env b0 = Inr sch0
      \<and> dst_Type (Destination opts) = TypeOci
      \<and> os_Rename env (filepath_Join env (Directory (Destination opts)) ''UNKNOW'')
           (filepath_Join env (Directory (Destination opts)) (Encoded env md0)) (ext V)
         = (Some e, v')"
  then have "copyDockerV2Schema1MediaType env opts s W =
     (case renameStaged env opts md0 V of
        (Some err, W2) \<Rightarrow> (s, W2, Some err)
      | (None, W2) \<Rightarrow>
          (fst (recordCopiedImage s
             (updateSpecDockerV2Schema2
                \<lparr>Arch = ii_Architecture (imageInspectInfo s), OS = ii_Os (imageInspectInfo s),
                 OSVersion = [], OSFeatures = [], Variant = ii_Variant (imageInspectInfo s),
                 MediaType = mt0, Layers = [], Config = s2_Digest (ConfigDescriptor sch0),
                 Digest = md0\<rparr> sch0)), W2, None))"
    using copyDockerV2Schema1MediaType_inspected [where env = env and opts = opts and s = s
        and sref = sref0 and dref = dref0 and W = W and ?W1.0 = V and insp = insp0 and b = b0
        and mt = mt0 and md = md0 and sch = sch0]
    by simp
  with a show "copyDockerV2Schema1MediaType env opts s W =
          (s,
           V\<lparr>ext := v',
             renames := renames V
               @ [(filepath_Join env (Directory (Destination opts)) ''UNKNOW'',
                   filepath_Join env (Directory (Destination opts)) (Encoded env md0))]\<rparr>,
           Some (Errorf (''failed to rename [''
                           @ filepath_Join env (Directory (Destination opts)) ''UNKNOW''
                           @ ''] to [''
                           @ filepath_Join env (Directory (Destination opts)) (Encoded env md0)
                           @ '']: '') e))"
    by (simp add: renameStaged_cases)
qed


lemma exRun_schema1:
  "copyDockerV2Schema1MediaType exEnv exOpts exSourceSchema1 exWorld =
     (fst (recordCopiedImage exSourceSchema1 exSpecSchema1),
      snd (copyImage exEnv
             (mkCopyOptions exOpts exSourceSchema1 ''r/p/n:1'' ''/out/UNKNOW''
                DockerV2Schema1SignedMediaType) exWorld)
        \<lparr>ext := 101, renames := [(''/out/UNKNOW'', ''/out/dd'')]\<rparr>,
      None)"
  by (simp add: copyDockerV2Schema1MediaType_def renameStaged_def exSourceSchema1_def
      exSpecSchema1_def ex_defs flow_defs mime_defs)

theorem schema1_digest_and_rename_witness:
  "snd (snd (copyDockerV2Schema1MediaType exEnv exOpts exSourceSchema1 exWorld)) = None
   \<and> copiedList (fst (copyDockerV2Schema1MediaType exEnv exOpts exSourceSchema1 exWorld))
       = [exSpecSchema1]
   \<and> manifest_Digest exEnv ''bytes'' = Inr (Digest exSpecSchema1)
   \<and> renames (fst (snd (copyDockerV2Schema1MediaType exEnv exOpts exSourceSchema1 exWorld)))
       = [(''/out/UNKNOW'', ''/out/dd'')]
   \<and> ext (fst (snd (copyDockerV2Schema1MediaType exEnv exOpts exSourceSchema1 exWorld)))
       = snd (os_Rename exEnv ''/out/UNKNOW'' ''/out/dd'' 1)
   \<and> copiedList (fst (copyDockerV2Schema1MediaType exEnvBusy exOpts exSourceSchema1 exWorld))
       = []
   \<and> snd (snd (copyDockerV2Schema1MediaType exEnvBusy exOpts exSourceSchema1 exWorld))
       = Some (Errorf ''failed to rename [/out/UNKNOW] to [/out/dd]: '' (Opaque ''busy''))"
proof -
  let ?V = "snd (copyImage exEnv
             (mkCopyOptions exOpts exSourceSchema1 ''r/p/n:1'' ''/out/UNKNOW''
                DockerV2Schema1SignedMediaType) exWorld)"
  have ok: "copyDockerV2Schema1MediaType exEnv exOpts exSourceSchema1 exWorld =
      (fst (copyDockerV2Schema1MediaType exEnv exOpts exSourceSchema1 exWorld),
       fst (snd (copyDockerV2Schema1MediaType exEnv exOpts exSourceSchema1 exWorld)), None)"
    by (simp add: exRun_schema1)
  have hyp: "Allow (Set_filter exOpts) (ii_Architecture (imageInspectInfo exSourceSchema1))
             (ii_Os (imageInspectInfo exSourceSchema1)) (ii_Variant (imageInspectInfo exSourceSchema1))
      \<and> Reference exEnvBusy exSourceSchema1 = Inr ''r/p/n:1''
      \<and> ReferenceMultiArch exEnvBusy (ii_Os (imageInspectInfo exSourceSchema1)) ''''
           (ii_Architecture (imageInspectInfo exSourceSchema1))
           (ii_Variant (imageInspectInfo exSourceSchema1)) ''UNKNOW'' = Inr ''/out/UNKNOW''
      \<and> copyImage exEnvBusy (mkCopyOptions exOpts exSourceSchema1 ''r/p/n:1'' ''/out/UNKNOW''
            (mime exSourceSchema1)) exWorld = (None, ?V)
      \<and> NewInspector exEnvBusy (ext ?V) ''/out/UNKNOW'' (dst_SystemContext (Destination exOpts))
           = Inr ''/out/UNKNOW''
      \<and> Raw exEnvBusy (ext ?V) ''/out/UNKNOW'' = Inr (''bytes'', DockerV2Schema2MediaType)
      \<and> manifest_Digest exEnvBusy ''bytes'' = Inr ''sha256:dd''
      \<and> Schema2FromManifest exEnvBusy ''bytes'' = Inr exSchema2
      \<and> dst_Type (Destination exOpts) = TypeOci
      \<and> os_Rename exEnvBusy (filepath_Join exEnvBusy (Directory (Destination exOpts)) ''UNKNOW'')
           (filepath_Join exEnvBusy (Directory (Destination exOpts)) (Encoded exEnvBusy ''sha256:dd''))
           (ext ?V)
         = (Some (Opaque ''busy''), 1)"
    by (simp add: exEnvBusy_def exSourceSchema1_def exEnv_def exOpts_def exSource_def
        exWorld_def Allow_def copyImage_def runCopier_def mkCopyOptions_def mime_defs)
  note busy = schema1_digest_and_rename [where env = exEnvBusy and opts = exOpts
      and s = exSourceSchema1 and W = exWorld, THEN conjunct2, THEN conjunct1, THEN mp,
      OF hyp]
  note good = schema1_digest_and_rename [where env = exEnv and opts = exOpts
      and s = exSourceSchema1 and W = exWorld, THEN conjunct1, THEN mp, OF ok]
  have hypOk: "Allow (Set_filter exOpts) (ii_Architecture (imageInspectInfo exSourceSchema1))
             (ii_Os (imageInspectInfo exSourceSchema1)) (ii_Variant (imageInspectInfo exSourceSchema1))
      \<and> Reference exEnv exSourceSchema1 = Inr ''r/p/n:1''
      \<and> ReferenceMultiArch exEnv (ii_Os (imageInspectInfo exSourceSchema1)) ''''
           (ii_Architecture (imageInspectInfo exSourceSchema1))
           (ii_Variant (imageInspectInfo exSourceSchema1)) ''UNKNOW'' = Inr ''/out/UNKNOW''
      \<and> copyImage exEnv (mkCopyOptions exOpts exSourceSchema1 ''r/p/n:1'' ''/out/UNKNOW''
            (mime exSourceSchema1)) exWorld = (None, ?V)
      \<and> NewInspector exEnv (ext ?V) ''/out/UNKNOW'' (dst_SystemContext (Destination exOpts))
           = Inr ''/out/UNKNOW''
      \<and> Raw exEnv (ext ?V) ''/out/UNKNOW'' = Inr (''bytes'', DockerV2Schema2MediaType)
      \<and> manifest_Digest exEnv ''bytes'' = Inr ''sha256:dd''
      \<and> Schema2FromManifest exEnv ''bytes'' = Inr exSchema2
      \<and> (dst_Type (Destination exOpts) = TypeOci
           \<and> os_Rename exEnv (filepath_Join exEnv (Directory (Destination exOpts)) ''UNKNOW'')
                (filepath_Join exEnv (Directory (Destination exOpts)) (Encoded exEnv ''sha256:dd''))
                (ext ?V)
              = (None, 101)
           \<and> ?V\<lparr>ext := 101, renames := [(''/out/UNKNOW'', ''/out/dd'')]\<rparr>
              = ?V\<lparr>ext := 101,
                     renames := renames ?V
                       @ [(filepath_Join exEnv (Directory (Destination exOpts)) ''UNKNOW'',
                           filepath_Join exEnv (Directory (Destination exOpts))
                             (Encoded exEnv ''sha256:dd''))]\<rparr>
          \<or> dst_Type (Destination exOpts) \<noteq> TypeOci
            \<and> ?V\<lparr>ext := 101, renames := [(''/out/UNKNOW'', ''/out/dd'')]\<rparr> = ?V)"
    by (simp add: exSourceSchema1_def exEnv_def exOpts_def exSource_def
        exWorld_def Allow_def copyImage_def runCopier_def mkCopyOptions_def mime_defs)
  note forward = schema1_digest_and_rename [where env = exEnv and opts = exOpts
      and s = exSourceSchema1 and W = exWorld, THEN conjunct2, THEN conjunct2, THEN mp,
      OF hypOk]
  have a: "copiedList (fst (copyDockerV2Schema1MediaType exEnvBusy exOpts exSourceSchema1 exWorld))
       = []"
    "snd (snd (copyDockerV2Schema1MediaType exEnvBusy exOpts exSourceSchema1 exWorld))
       = Some (Errorf ''failed to rename [/out/UNKNOW] to [/out/dd]: '' (Opaque ''busy''))"
    by (simp_all add: busy) (simp_all add: exEnvBusy_def exSourceSchema1_def ex_defs)
  have b: "snd (snd (copyDockerV2Schema1MediaType exEnv exOpts exSourceSchema1 exWorld)) = None"
    "copiedList (fst (copyDockerV2Schema1MediaType exEnv exOpts exSourceSchema1 exWorld))
       = [exSpecSchema1]"
    "manifest_Digest exEnv ''bytes'' = Inr (Digest exSpecSchema1)"
    "renames (fst (snd (copyDockerV2Schema1MediaType exEnv exOpts exSourceSchema1 exWorld)))
       = [(''/out/UNKNOW'', ''/out/dd'')]"
    "ext (fst (snd (copyDockerV2Schema1MediaType exEnv exOpts exSourceSchema1 exWorld)))
       = snd (os_Rename exEnv ''/out/UNKNOW'' ''/out/dd'' 1)"
    using good
    by (simp_all add: exRun_schema1)
       (simp_all add: recordCopiedImage_def exSourceSchema1_def exSpecSchema1_def ex_defs)
  have f: "snd (snd (copyDockerV2Schema1MediaType exEnv exOpts exSourceSchema1 exWorld)) = None"
    by (simp add: forward)
  from a b f show ?thesis by simp
qed

section \<open>The fast path in the single-image flows\<close>

text \<open>The OCI image manifest flow does not ask the destination for the digest.\<close>

lemma copyImage_HaveDigest:
  "copyImage (env\<lparr>HaveDigest := h\<rparr>) opt W = copyImage env opt W"
  by (simp add: copyImage_def runCopier_def Let_def split: prod.splits)

lemma copyMediaTypeImageManifest_HaveDigest:
  "copyMediaTypeImageManifest (env\<lparr>HaveDigest := h\<rparr>) opts s W
     = copyMediaTypeImageManifest env opts s W"
  by (simp add: copyMediaTypeImageManifest_def copyImage_HaveDigest Let_def
      split: sum.splits prod.splits option.splits)

text \<open>
  Claim C2 holds of the docker v2 schema-2 flow and fails of the OCI image manifest
  flow, which has no fast path. With an empty \<open>SigstorePrivateKey\<close> and a destination
  that has the session's manifest digest, the schema-2 flow returns the session and the
  world as they were, without error; the OCI image manifest flow, on the same image and
  destination, invokes the copier and records the spec.
\<close>

theorem image_manifest_flow_no_fast_path:
  "SigstorePrivateKey exOpts = ''''
   \<and> HaveDigest exEnv (ext exWorld) (manifestDigest exSourceOCI)
   \<and> Allow (Set_filter exOpts) (c_Architecture (ociConfig exSourceOCI))
        (c_OS (ociConfig exSourceOCI)) (c_Variant (ociConfig exSourceOCI))
   \<and> map co_SourceRef
        (copies (fst (snd (copyMediaTypeImageManifest exEnv exOpts exSourceOCI exWorld))))
       = [''r/p/n:1'']
   \<and> map Digest (copiedList (fst (copyMediaTypeImageManifest exEnv exOpts exSourceOCI exWorld)))
       = [''sha256:aa'']
   \<and> snd (snd (copyMediaTypeImageManifest exEnv exOpts exSourceOCI exWorld)) = None
   \<and> copyDockerV2Schema2MediaType exEnv exOpts exSourceSchema2 exWorld
       = (exSourceSchema2, exWorld, None)"
  by (simp add: copyMediaTypeImageManifest_def copyDockerV2Schema2MediaType_def
      exSourceOCI_def exSourceSchema2_def ex_defs flow_defs mime_defs)

end
